theory Spec2Isabelle
  imports Main "HOL-Library.AList"
begin

section \<open>Python values, dictionaries and exceptions\<close>

text \<open>
  The handlers of \<^verbatim>\<open>routes_auth.py\<close> and \<^verbatim>\<open>routes_media.py\<close> pass documents around
  as Python dictionaries with string keys. A dictionary is an association list in
  insertion order; a value is one of the JSON-shaped Python values (floats, which no
  handler inspects, are left out).
\<close>

datatype pyval =
    PNone
  | PBool bool
  | PInt int
  | PStr string
  | PList "pyval list"
  | PDict "(string \<times> pyval) list"

type_synonym pydict = "(string \<times> pyval) list"

text \<open>
  Exceptions. \<^verbatim>\<open>HTTPException(status_code, detail)\<close> is what FastAPI turns into a response;
  every other exception is a \<open>py_exc\<close> carrying its message (\<^verbatim>\<open>str(e)\<close>).
  \<^verbatim>\<open>json.JSONDecodeError\<close> is a subclass of \<^verbatim>\<open>ValueError\<close>; \<open>OtherError\<close> stands for
  every exception class that is neither a \<^verbatim>\<open>ValueError\<close> nor an \<^verbatim>\<open>HTTPException\<close>.
\<close>

datatype py_exc =
    ValueError string
  | JSONDecodeError string
  | KeyError string
  | OtherError string

datatype exn =
    HTTPException nat string
  | Raised py_exc

fun str_exc :: "py_exc \<Rightarrow> string" where
  "str_exc (ValueError m) = m"
| "str_exc (JSONDecodeError m) = m"
| "str_exc (KeyError k) = [CHR 0x27] @ k @ [CHR 0x27]"
| "str_exc (OtherError m) = m"

text \<open>\<^verbatim>\<open>isinstance(e, ValueError)\<close>, as the clause \<^verbatim>\<open>except ValueError\<close> tests it.\<close>

fun is_ValueError :: "py_exc \<Rightarrow> bool" where
  "is_ValueError (ValueError _) = True"
| "is_ValueError (JSONDecodeError _) = True"
| "is_ValueError (KeyError _) = False"
| "is_ValueError (OtherError _) = False"

fun is_JSONDecodeError :: "py_exc \<Rightarrow> bool" where
  "is_JSONDecodeError (JSONDecodeError _) = True"
| "is_JSONDecodeError (ValueError _) = False"
| "is_JSONDecodeError (KeyError _) = False"
| "is_JSONDecodeError (OtherError _) = False"

abbreviation HTTP_200_OK :: nat where "HTTP_200_OK \<equiv> 200"
abbreviation HTTP_201_CREATED :: nat where "HTTP_201_CREATED \<equiv> 201"
abbreviation HTTP_204_NO_CONTENT :: nat where "HTTP_204_NO_CONTENT \<equiv> 204"
abbreviation HTTP_400_BAD_REQUEST :: nat where "HTTP_400_BAD_REQUEST \<equiv> 400"
abbreviation HTTP_401_UNAUTHORIZED :: nat where "HTTP_401_UNAUTHORIZED \<equiv> 401"
abbreviation HTTP_404_NOT_FOUND :: nat where "HTTP_404_NOT_FOUND \<equiv> 404"
abbreviation HTTP_409_CONFLICT :: nat where "HTTP_409_CONFLICT \<equiv> 409"
abbreviation HTTP_500_INTERNAL_SERVER_ERROR :: nat where "HTTP_500_INTERNAL_SERVER_ERROR \<equiv> 500"

text \<open>\<^verbatim>\<open>d[k]\<close>: the value stored under \<open>k\<close>, or \<^verbatim>\<open>KeyError\<close>.\<close>

definition getitem :: "pydict \<Rightarrow> string \<Rightarrow> exn + pyval" where
  "getitem d k = (case map_of d k of None \<Rightarrow> Inl (Raised (KeyError k)) | Some v \<Rightarrow> Inr v)"

text \<open>Truth values, as \<^verbatim>\<open>if x:\<close> reads them, of an optional dictionary, an optional
  byte string and an optional string.\<close>

fun truthy_dict :: "pydict option \<Rightarrow> bool" where
  "truthy_dict None = False"
| "truthy_dict (Some d) = (d \<noteq> [])"

fun truthy_str :: "string option \<Rightarrow> bool" where
  "truthy_str None = False"
| "truthy_str (Some s) = (s \<noteq> [])"

fun opt_str :: "string option \<Rightarrow> pyval" where
  "opt_str None = PNone"
| "opt_str (Some s) = PStr s"

fun is_list :: "pyval \<Rightarrow> bool" where
  "is_list (PList _) = True"
| "is_list PNone = False"
| "is_list (PBool _) = False"
| "is_list (PInt _) = False"
| "is_list (PStr _) = False"
| "is_list (PDict _) = False"

section \<open>The world outside the handlers\<close>

text \<open>
  What a handler does to the outside is recorded as a trace of events: every call of a
  collaborator (document store, blob store, token issuance) and every log line, in order,
  whether the call returned or raised.
\<close>

datatype level = INFO | WARNING | ERROR

datatype event =
    Log level string
  | LogExc level string exn
  | LogVal level string pyval
  | GetUserByEmail string
  | CreateUser pydict
  | CreateAccessToken pydict
  | FetchAndVerify string string
  | CreateMedia pydict
  | UpdateMedia string string pydict
  | DeleteMedia string string
  | UploadFile string string string string
  | DeleteFile pyval

text \<open>
  \<open>LogExc lv prefix e\<close> is the log line \<^verbatim>\<open>f"{prefix}{e}"\<close> for an exception,
  \<open>LogVal lv prefix v\<close> the same for a value read from a document. \<open>UploadFile data user name ctype\<close>
  is \<^verbatim>\<open>blob_storage.upload_file(stream, user, name, ctype)\<close> with the bytes of the stream.

  The world holds the collaborators' own state \<open>store\<close> (of any type), the identifiers
  \<^verbatim>\<open>uuid.uuid4()\<close> is going to return and how many were taken, the same for the clock read
  by \<^verbatim>\<open>datetime.utcnow()\<close>, and the trace.
\<close>

record 's world =
  store :: 's
  uuids :: "nat \<Rightarrow> string"
  uuids_taken :: nat
  clock :: "nat \<Rightarrow> string"
  clock_read :: nat
  trace :: "event list"

type_synonym ('s, 'a) prog = "'s world \<Rightarrow> (exn + 'a) \<times> 's world"

definition ret :: "'a \<Rightarrow> ('s, 'a) prog" where
  "ret x = (\<lambda>w. (Inr x, w))"

definition throw :: "exn \<Rightarrow> ('s, 'a) prog" where
  "throw e = (\<lambda>w. (Inl e, w))"

definition bind :: "('s, 'a) prog \<Rightarrow> ('a \<Rightarrow> ('s, 'b) prog) \<Rightarrow> ('s, 'b) prog" where
  "bind m f = (\<lambda>w. case m w of (Inl e, w') \<Rightarrow> (Inl e, w') | (Inr x, w') \<Rightarrow> f x w')"

text \<open>\<^verbatim>\<open>try: m  except ... as e: h e\<close>; a handler \<open>h\<close> re-raises what its clauses do not catch.\<close>

definition try_except :: "('s, 'a) prog \<Rightarrow> (exn \<Rightarrow> ('s, 'a) prog) \<Rightarrow> ('s, 'a) prog" where
  "try_except m h = (\<lambda>w. case m w of (Inl e, w') \<Rightarrow> h e w' | (Inr x, w') \<Rightarrow> (Inr x, w'))"

text \<open>The result of a call that touches no state.\<close>

definition lift :: "exn + 'a \<Rightarrow> ('s, 'a) prog" where
  "lift r = (\<lambda>w. (r, w))"

definition emit :: "event \<Rightarrow> ('s, unit) prog" where
  "emit ev = (\<lambda>w. (Inr (), w\<lparr>trace := trace w @ [ev]\<rparr>))"

text \<open>A call of a collaborator: the event is recorded, then the collaborator runs on
  the store.\<close>

definition call :: "event \<Rightarrow> ('s \<Rightarrow> (exn + 'a) \<times> 's) \<Rightarrow> ('s, 'a) prog" where
  "call ev f = (\<lambda>w. case f (store w) of
                      (r, s') \<Rightarrow> (r, w\<lparr>store := s', trace := trace w @ [ev]\<rparr>))"

definition uuid4 :: "('s, string) prog" where
  "uuid4 = (\<lambda>w. (Inr (uuids w (uuids_taken w)), w\<lparr>uuids_taken := Suc (uuids_taken w)\<rparr>))"

definition utcnow_isoformat :: "('s, string) prog" where
  "utcnow_isoformat = (\<lambda>w. (Inr (clock w (clock_read w)), w\<lparr>clock_read := Suc (clock_read w)\<rparr>))"

text \<open>
  The collaborators. None of them is defined in the two route modules: they are imported
  from \<^verbatim>\<open>auth\<close>, \<^verbatim>\<open>database\<close>, \<^verbatim>\<open>storage\<close>, \<^verbatim>\<open>utils\<close>, \<^verbatim>\<open>media_helpers\<close> and the \<^verbatim>\<open>json\<close>
  library, so the handlers are modelled over any behaviour of them. Each may raise.
  The uploaded file is held in memory: \<^verbatim>\<open>file.read()\<close> yields its \<open>content\<close> and
  \<^verbatim>\<open>file.seek(0)\<close> rewinds it, neither being a call of a collaborator.
\<close>

record upload =
  filename :: string
  content_type :: string
  content :: string

record 's env =
  get_current_user_id :: "string \<Rightarrow> exn + string"
  get_password_hash :: "string \<Rightarrow> exn + string"
  verify_password :: "string \<Rightarrow> pyval \<Rightarrow> exn + bool"
  create_access_token :: "pydict \<Rightarrow> exn + string"
  cosmos_db_get_user_by_email :: "string \<Rightarrow> 's \<Rightarrow> (exn + pydict option) \<times> 's"
  cosmos_db_create_user :: "pydict \<Rightarrow> 's \<Rightarrow> (exn + pydict) \<times> 's"
  cosmos_db_create_media :: "pydict \<Rightarrow> 's \<Rightarrow> (exn + pydict) \<times> 's"
  cosmos_db_update_media :: "string \<Rightarrow> string \<Rightarrow> pydict \<Rightarrow> 's \<Rightarrow> (exn + pydict) \<times> 's"
  cosmos_db_delete_media :: "string \<Rightarrow> string \<Rightarrow> 's \<Rightarrow> (exn + unit) \<times> 's"
  blob_storage_upload_file ::
    "string \<Rightarrow> string \<Rightarrow> string \<Rightarrow> string \<Rightarrow> 's \<Rightarrow> (exn + string \<times> string) \<times> 's"
  blob_storage_delete_file :: "pyval \<Rightarrow> 's \<Rightarrow> (exn + unit) \<times> 's"
  fetch_and_verify_media_ownership :: "string \<Rightarrow> string \<Rightarrow> 's \<Rightarrow> (exn + pydict) \<times> 's"
  extract_thumbnail_blob_identifier :: "pydict \<Rightarrow> exn + string option"
  validate_file_type :: "upload \<Rightarrow> exn + string"
  validate_file_size :: "upload \<Rightarrow> exn + int"
  generate_thumbnail :: "string \<Rightarrow> exn + string option"
  json_loads :: "string \<Rightarrow> exn + pyval"

section \<open>The auth handlers (routes-auth)\<close>

record UserCreate =
  username :: string
  email :: string
  password :: string

record LoginRequest =
  login_email :: string
  login_password :: string

text \<open>The response models, built by keyword: \<^verbatim>\<open>UserResponse(id=, username=, email=,
  createdAt=)\<close> is the dictionary of its keywords, \<^verbatim>\<open>Token(token=, user=)\<close> a pair.\<close>

definition UserResponse :: "pyval \<Rightarrow> pyval \<Rightarrow> pyval \<Rightarrow> pyval \<Rightarrow> pydict" where
  "UserResponse i u e c = [(''id'', i), (''username'', u), (''email'', e), (''createdAt'', c)]"

record Token =
  token :: string
  user :: pydict

definition register_account_try :: "'s env \<Rightarrow> UserCreate \<Rightarrow> ('s, Token) prog" where
  "register_account_try env account_payload =
     bind (emit (Log INFO (''Registration attempt for email: '' @ email account_payload))) (\<lambda>_.
     bind (call (GetUserByEmail (email account_payload))
             (cosmos_db_get_user_by_email env (email account_payload))) (\<lambda>existing_account.
     if truthy_dict existing_account then
       bind (emit (Log WARNING
               (''Registration failed: Email already exists '' @ email account_payload))) (\<lambda>_.
       throw (HTTPException HTTP_400_BAD_REQUEST ''User with this email already exists''))
     else
       bind uuid4 (\<lambda>account_id.
       bind (lift (get_password_hash env (password account_payload))) (\<lambda>hashed.
       bind utcnow_isoformat (\<lambda>created.
       let account_doc =
             [(''id'', PStr account_id),
              (''username'', PStr (username account_payload)),
              (''email'', PStr (email account_payload)),
              (''hashed_password'', PStr hashed),
              (''created_at'', PStr created)] in
       bind (call (CreateUser account_doc) (cosmos_db_create_user env account_doc))
         (\<lambda>persisted_user.
       bind (emit (Log INFO (''User created successfully: '' @ email account_payload))) (\<lambda>_.
       let data = [(''sub'', PStr account_id), (''email'', PStr (email account_payload))] in
       bind (emit (CreateAccessToken data)) (\<lambda>_.
       bind (lift (create_access_token env data)) (\<lambda>access_token.
       bind (lift (getitem persisted_user ''id'')) (\<lambda>r_id.
       bind (lift (getitem persisted_user ''username'')) (\<lambda>r_username.
       bind (lift (getitem persisted_user ''email'')) (\<lambda>r_email.
       bind (lift (getitem persisted_user ''created_at'')) (\<lambda>r_created.
       ret \<lparr>token = access_token,
            user = UserResponse r_id r_username r_email r_created\<rparr>)))))))))))))"

definition register_account_except :: "exn \<Rightarrow> ('s, Token) prog" where
  "register_account_except e =
     (case e of
        HTTPException c d \<Rightarrow> throw e
      | Raised x \<Rightarrow>
          if is_ValueError x then
            bind (emit (LogExc ERROR ''Registration validation error: '' e)) (\<lambda>_.
            throw (HTTPException HTTP_400_BAD_REQUEST (str_exc x)))
          else
            bind (emit (LogExc ERROR ''Registration error: '' e)) (\<lambda>_.
            throw (HTTPException HTTP_500_INTERNAL_SERVER_ERROR
                     (''Failed to register user: '' @ str_exc x))))"

definition register_account :: "'s env \<Rightarrow> UserCreate \<Rightarrow> ('s, nat \<times> Token) prog" where
  "register_account env account_payload =
     bind (try_except (register_account_try env account_payload) register_account_except)
       (\<lambda>body. ret (HTTP_200_OK, body))"

definition login_account_found ::
  "'s env \<Rightarrow> LoginRequest \<Rightarrow> pydict \<Rightarrow> ('s, Token) prog" where
  "login_account_found env credentials_payload account_record =
     bind (lift (getitem account_record ''hashed_password'')) (\<lambda>hashed.
     bind (lift (verify_password env (login_password credentials_payload) hashed)) (\<lambda>ok.
     if \<not> ok then
       bind (emit (Log WARNING (''Login failed: Invalid password for email ''
                                  @ login_email credentials_payload))) (\<lambda>_.
       throw (HTTPException HTTP_401_UNAUTHORIZED ''Invalid email or password''))
     else
       bind (lift (getitem account_record ''id'')) (\<lambda>sub.
       bind (lift (getitem account_record ''email'')) (\<lambda>mail.
       let data = [(''sub'', sub), (''email'', mail)] in
       bind (emit (CreateAccessToken data)) (\<lambda>_.
       bind (lift (create_access_token env data)) (\<lambda>access_token.
       bind (lift (getitem account_record ''id'')) (\<lambda>r_id.
       bind (lift (getitem account_record ''username'')) (\<lambda>r_username.
       bind (lift (getitem account_record ''email'')) (\<lambda>r_email.
       bind (lift (getitem account_record ''created_at'')) (\<lambda>r_created.
       bind (lift (getitem account_record ''email'')) (\<lambda>l_email.
       bind (emit (LogVal INFO ''Login successful for user: '' l_email)) (\<lambda>_.
       ret \<lparr>token = access_token,
            user = UserResponse r_id r_username r_email r_created\<rparr>))))))))))))"

definition login_account_not_found :: "LoginRequest \<Rightarrow> ('s, Token) prog" where
  "login_account_not_found credentials_payload =
     bind (emit (Log WARNING (''Login failed: User not found for email ''
                                @ login_email credentials_payload))) (\<lambda>_.
     throw (HTTPException HTTP_401_UNAUTHORIZED ''Invalid email or password''))"

text \<open>\<^verbatim>\<open>if not account_record\<close> holds of \<^verbatim>\<open>None\<close> and of an empty dictionary.\<close>

definition login_account_try :: "'s env \<Rightarrow> LoginRequest \<Rightarrow> ('s, Token) prog" where
  "login_account_try env credentials_payload =
     bind (emit (Log INFO (''Login attempt for email: '' @ login_email credentials_payload)))
       (\<lambda>_.
     bind (call (GetUserByEmail (login_email credentials_payload))
             (cosmos_db_get_user_by_email env (login_email credentials_payload)))
       (\<lambda>account_record.
     case account_record of
       None \<Rightarrow> login_account_not_found credentials_payload
     | Some r \<Rightarrow>
         if r = [] then login_account_not_found credentials_payload
         else login_account_found env credentials_payload r))"

definition login_account_except :: "exn \<Rightarrow> ('s, Token) prog" where
  "login_account_except e =
     (case e of
        HTTPException c d \<Rightarrow> throw e
      | Raised x \<Rightarrow>
          bind (emit (LogExc ERROR ''Login error: '' e)) (\<lambda>_.
          throw (HTTPException HTTP_500_INTERNAL_SERVER_ERROR
                   (''Failed to login: '' @ str_exc x))))"

definition login_account :: "'s env \<Rightarrow> LoginRequest \<Rightarrow> ('s, nat \<times> Token) prog" where
  "login_account env credentials_payload =
     bind (try_except (login_account_try env credentials_payload) login_account_except)
       (\<lambda>body. ret (HTTP_200_OK, body))"

section \<open>The media handlers (routes-media)\<close>

record MediaUpdate =
  upd_description :: "string option"
  upd_tags :: "string list option"

text \<open>
  Modelled from the spec: the response model \<^verbatim>\<open>MediaResponse\<close> is declared in \<^verbatim>\<open>models.py\<close>,
  which is not among the sources. The spec has the media record returned "as JSON,
  omitting no fields", so \<^verbatim>\<open>MediaResponse(**d)\<close> carries the entries of \<open>d\<close>.
\<close>

definition MediaResponse :: "pydict \<Rightarrow> pydict" where
  "MediaResponse kwargs = kwargs"

text \<open>The \<^verbatim>\<open>tags\<close> form field: \<^verbatim>\<open>if tags:\<close> skips a missing and an empty field. The inner
  \<^verbatim>\<open>except\<close> clause names \<^verbatim>\<open>json.JSONDecodeError\<close> only.\<close>

definition parse_tags :: "'s env \<Rightarrow> string option \<Rightarrow> ('s, pyval) prog" where
  "parse_tags env tags =
     (case tags of
        None \<Rightarrow> ret PNone
      | Some t \<Rightarrow>
          if t = [] then ret PNone
          else
            try_except
              (bind (lift (json_loads env t)) (\<lambda>parsed_tags.
               if \<not> is_list parsed_tags then throw (Raised (ValueError ''Tags must be an array''))
               else ret parsed_tags))
              (\<lambda>e. case e of
                     HTTPException c d \<Rightarrow> throw e
                   | Raised x \<Rightarrow>
                       if is_JSONDecodeError x then
                         throw (HTTPException HTTP_400_BAD_REQUEST
                                  ''Invalid tags format. Must be a JSON array.'')
                       else throw e))"

text \<open>The thumbnail of an image: \<open>preview_url\<close> stays \<^verbatim>\<open>None\<close> unless the second upload
  returns.\<close>

definition upload_thumbnail ::
  "'s env \<Rightarrow> upload \<Rightarrow> string \<Rightarrow> string \<Rightarrow> string \<Rightarrow> ('s, pyval) prog" where
  "upload_thumbnail env file raw_payload media_kind user_id =
     (if media_kind = ''image'' then
        bind (lift (generate_thumbnail env raw_payload)) (\<lambda>preview_data.
        case preview_data of
          None \<Rightarrow> ret PNone
        | Some data \<Rightarrow>
            if data = [] then ret PNone
            else
              try_except
                (bind (call (UploadFile data user_id (''thumb_'' @ filename file) ''image/jpeg'')
                         (blob_storage_upload_file env data user_id
                            (''thumb_'' @ filename file) ''image/jpeg''))
                   (\<lambda>(preview_blob_name, preview_url). ret (PStr preview_url)))
                (\<lambda>e. bind (emit (LogExc WARNING ''Failed to upload thumbnail: '' e)) (\<lambda>_.
                      ret PNone)))
      else ret PNone)"

definition media_payload ::
  "string \<Rightarrow> string \<Rightarrow> string \<Rightarrow> upload \<Rightarrow> string \<Rightarrow> int \<Rightarrow> string \<Rightarrow> pyval
     \<Rightarrow> string option \<Rightarrow> pyval \<Rightarrow> string \<Rightarrow> pydict" where
  "media_payload media_identifier user_id uploaded_name file media_kind uploaded_size
       uploaded_url preview_url description parsed_tags timestamp_iso =
     [(''id'', PStr media_identifier),
      (''userId'', PStr user_id),
      (''fileName'', PStr uploaded_name),
      (''originalFileName'', PStr (filename file)),
      (''mediaType'', PStr media_kind),
      (''fileSize'', PInt uploaded_size),
      (''mimeType'', PStr (content_type file)),
      (''blobUrl'', PStr uploaded_url),
      (''thumbnailUrl'', preview_url),
      (''description'', opt_str description),
      (''tags'', parsed_tags),
      (''uploadedAt'', PStr timestamp_iso),
      (''updatedAt'', PStr timestamp_iso)]"

definition upload_media_try ::
  "'s env \<Rightarrow> upload \<Rightarrow> string option \<Rightarrow> string option \<Rightarrow> string \<Rightarrow> ('s, pydict) prog" where
  "upload_media_try env file description tags user_id =
     bind (lift (validate_file_type env file)) (\<lambda>media_kind.
     bind (lift (validate_file_size env file)) (\<lambda>uploaded_size.
     bind (parse_tags env tags) (\<lambda>parsed_tags.
     let raw_payload = content file in
     bind (call (UploadFile (content file) user_id (filename file) (content_type file))
             (blob_storage_upload_file env (content file) user_id (filename file)
                (content_type file)))
       (\<lambda>(uploaded_name, uploaded_url).
     bind (upload_thumbnail env file raw_payload media_kind user_id) (\<lambda>preview_url.
     bind uuid4 (\<lambda>media_identifier.
     bind utcnow_isoformat (\<lambda>timestamp_iso.
     let payload = media_payload media_identifier user_id uploaded_name file media_kind
                     uploaded_size uploaded_url preview_url description parsed_tags
                     timestamp_iso in
     bind (call (CreateMedia payload) (cosmos_db_create_media env payload)) (\<lambda>persisted_media.
     ret (MediaResponse persisted_media)))))))))"

definition upload_media_except :: "exn \<Rightarrow> ('s, pydict) prog" where
  "upload_media_except e =
     (case e of
        HTTPException c d \<Rightarrow> throw e
      | Raised x \<Rightarrow>
          bind (emit (LogExc ERROR ''Upload error: '' e)) (\<lambda>_.
          throw (HTTPException HTTP_500_INTERNAL_SERVER_ERROR
                   (''Failed to upload media: '' @ str_exc x))))"

definition upload_media ::
  "'s env \<Rightarrow> upload \<Rightarrow> string option \<Rightarrow> string option \<Rightarrow> string
     \<Rightarrow> ('s, nat \<times> pydict) prog" where
  "upload_media env file description tags user_id =
     bind (try_except (upload_media_try env file description tags user_id) upload_media_except)
       (\<lambda>body. ret (HTTP_201_CREATED, body))"

text \<open>\<^verbatim>\<open>user_id: str = Depends(get_current_user_id)\<close>: the route resolves the caller from the
  bearer token before the handler runs; the request carries no user id of its own.\<close>

definition post_media ::
  "'s env \<Rightarrow> string \<Rightarrow> upload \<Rightarrow> string option \<Rightarrow> string option
     \<Rightarrow> ('s, nat \<times> pydict) prog" where
  "post_media env bearer file description tags =
     bind (lift (get_current_user_id env bearer)) (\<lambda>user_id.
     upload_media env file description tags user_id)"

text \<open>The update payload: \<^verbatim>\<open>updatedAt\<close>, then each field of the request that is not
  \<^verbatim>\<open>None\<close>.\<close>

definition update_payload :: "string \<Rightarrow> MediaUpdate \<Rightarrow> pydict" where
  "update_payload now update_data =
     (let p = [(''updatedAt'', PStr now)];
          p = (case upd_description update_data of
                 None \<Rightarrow> p
               | Some d \<Rightarrow> AList.update ''description'' (PStr d) p);
          p = (case upd_tags update_data of
                 None \<Rightarrow> p
               | Some t \<Rightarrow> AList.update ''tags'' (PList (map PStr t)) p)
      in p)"

definition update_media_metadata_try ::
  "'s env \<Rightarrow> string \<Rightarrow> MediaUpdate \<Rightarrow> string \<Rightarrow> ('s, pydict) prog" where
  "update_media_metadata_try env media_id update_data user_id =
     bind (call (FetchAndVerify media_id user_id)
             (fetch_and_verify_media_ownership env media_id user_id)) (\<lambda>existing_media.
     bind utcnow_isoformat (\<lambda>now.
     let payload = update_payload now update_data in
     bind (call (UpdateMedia media_id user_id payload)
             (cosmos_db_update_media env media_id user_id payload)) (\<lambda>updated_media.
     ret (MediaResponse updated_media))))"

definition update_media_metadata_except :: "exn \<Rightarrow> ('s, pydict) prog" where
  "update_media_metadata_except e =
     (case e of
        HTTPException c d \<Rightarrow> throw e
      | Raised x \<Rightarrow>
          if is_ValueError x then throw (HTTPException HTTP_404_NOT_FOUND (str_exc x))
          else
            bind (emit (LogExc ERROR ''Update media error: '' e)) (\<lambda>_.
            throw (HTTPException HTTP_500_INTERNAL_SERVER_ERROR ''Failed to update media'')))"

definition update_media_metadata ::
  "'s env \<Rightarrow> string \<Rightarrow> MediaUpdate \<Rightarrow> string \<Rightarrow> ('s, nat \<times> pydict) prog" where
  "update_media_metadata env media_id update_data user_id =
     bind (try_except (update_media_metadata_try env media_id update_data user_id)
             update_media_metadata_except)
       (\<lambda>body. ret (HTTP_200_OK, body))"

text \<open>Deleting: the primary blob, then the thumbnail blob when the helper names one
  (\<^verbatim>\<open>if preview_blob_id:\<close> skips \<^verbatim>\<open>None\<close> and the empty name), then the record.\<close>

definition delete_thumbnail :: "'s env \<Rightarrow> string option \<Rightarrow> ('s, unit) prog" where
  "delete_thumbnail env preview_blob_id =
     (case preview_blob_id of
        None \<Rightarrow> ret ()
      | Some b \<Rightarrow>
          if b = [] then ret ()
          else
            try_except
              (call (DeleteFile (PStr b)) (blob_storage_delete_file env (PStr b)))
              (\<lambda>e. emit (LogExc WARNING ''Thumbnail deletion failed: '' e)))"

definition delete_media_try :: "'s env \<Rightarrow> string \<Rightarrow> string \<Rightarrow> ('s, unit) prog" where
  "delete_media_try env media_id user_id =
     bind (call (FetchAndVerify media_id user_id)
             (fetch_and_verify_media_ownership env media_id user_id)) (\<lambda>media_record.
     bind (lift (getitem media_record ''fileName'')) (\<lambda>file_name.
     bind (call (DeleteFile file_name) (blob_storage_delete_file env file_name)) (\<lambda>_.
     bind (lift (extract_thumbnail_blob_identifier env media_record)) (\<lambda>preview_blob_id.
     bind (delete_thumbnail env preview_blob_id) (\<lambda>_.
     bind (call (DeleteMedia media_id user_id) (cosmos_db_delete_media env media_id user_id))
       (\<lambda>_.
     ret ()))))))"

definition delete_media_except :: "exn \<Rightarrow> ('s, unit) prog" where
  "delete_media_except e =
     (case e of
        HTTPException c d \<Rightarrow> throw e
      | Raised x \<Rightarrow>
          bind (emit (LogExc ERROR ''Delete media error: '' e)) (\<lambda>_.
          throw (HTTPException HTTP_500_INTERNAL_SERVER_ERROR ''Failed to delete media'')))"

definition delete_media :: "'s env \<Rightarrow> string \<Rightarrow> string \<Rightarrow> ('s, nat \<times> unit) prog" where
  "delete_media env media_id user_id =
     bind (try_except (delete_media_try env media_id user_id) delete_media_except)
       (\<lambda>body. ret (HTTP_204_NO_CONTENT, body))"

section \<open>An in-memory instance of the collaborators\<close>

text \<open>
  Modelled from the spec: the document store, the blob store, the token and password
  primitives, the validators and the ownership check are not among the sources. This
  instance follows the interfaces of the spec (section 6 and the ownership-check routine of
  section 4.2) on a store held in memory, with small limits, and serves to run the handlers
  on concrete requests. A blob whose name is listed under \<open>broken\<close> cannot be written or
  deleted. \<open>mem_json_loads\<close> is not a JSON parser: it agrees with \<^verbatim>\<open>json.loads\<close> on the
  strings \<^verbatim>\<open>[1,2,3]\<close>, \<^verbatim>\<open>42\<close> and \<^verbatim>\<open>not json\<close>, the only ones it is run on.
\<close>

record mem_store =
  users :: "pydict list"
  media :: "pydict list"
  blobs :: "string list"
  broken :: "string list"

definition mem_get_user_by_email ::
  "string \<Rightarrow> mem_store \<Rightarrow> (exn + pydict option) \<times> mem_store" where
  "mem_get_user_by_email e s =
     (Inr (find (\<lambda>u. map_of u ''email'' = Some (PStr e)) (users s)), s)"

definition mem_create_user :: "pydict \<Rightarrow> mem_store \<Rightarrow> (exn + pydict) \<times> mem_store" where
  "mem_create_user d s = (Inr d, s\<lparr>users := users s @ [d]\<rparr>)"

definition mem_create_media :: "pydict \<Rightarrow> mem_store \<Rightarrow> (exn + pydict) \<times> mem_store" where
  "mem_create_media d s = (Inr d, s\<lparr>media := media s @ [d]\<rparr>)"

definition owned_by :: "string \<Rightarrow> string \<Rightarrow> pydict \<Rightarrow> bool" where
  "owned_by media_id user_id m \<longleftrightarrow>
     map_of m ''id'' = Some (PStr media_id) \<and> map_of m ''userId'' = Some (PStr user_id)"

definition mem_update_media ::
  "string \<Rightarrow> string \<Rightarrow> pydict \<Rightarrow> mem_store \<Rightarrow> (exn + pydict) \<times> mem_store" where
  "mem_update_media media_id user_id p s =
     (case find (owned_by media_id user_id) (media s) of
        None \<Rightarrow> (Inl (Raised (ValueError ''Media not found'')), s)
      | Some m \<Rightarrow>
          (Inr (AList.merge m p),
           s\<lparr>media := map (\<lambda>x. if owned_by media_id user_id x then AList.merge x p else x)
                          (media s)\<rparr>))"

definition mem_delete_media ::
  "string \<Rightarrow> string \<Rightarrow> mem_store \<Rightarrow> (exn + unit) \<times> mem_store" where
  "mem_delete_media media_id user_id s =
     (Inr (), s\<lparr>media := filter (\<lambda>m. \<not> owned_by media_id user_id m) (media s)\<rparr>)"

definition mem_upload_file ::
  "string \<Rightarrow> string \<Rightarrow> string \<Rightarrow> string \<Rightarrow> mem_store
     \<Rightarrow> (exn + string \<times> string) \<times> mem_store" where
  "mem_upload_file data user_id name ctype s =
     (if user_id @ ''/'' @ name \<in> set (broken s) then
        (Inl (Raised (OtherError ''blob store unavailable'')), s)
      else
        (Inr (user_id @ ''/'' @ name, ''blob://'' @ user_id @ ''/'' @ name),
         s\<lparr>blobs := blobs s @ [user_id @ ''/'' @ name]\<rparr>))"

definition mem_delete_file :: "pyval \<Rightarrow> mem_store \<Rightarrow> (exn + unit) \<times> mem_store" where
  "mem_delete_file n s =
     (case n of
        PStr b \<Rightarrow>
          if b \<in> set (broken s) then (Inl (Raised (OtherError ''blob store unavailable'')), s)
          else (Inr (), s\<lparr>blobs := removeAll b (blobs s)\<rparr>)
      | _ \<Rightarrow> (Inl (Raised (OtherError ''blob name is not a string'')), s))"

definition mem_fetch_and_verify ::
  "string \<Rightarrow> string \<Rightarrow> mem_store \<Rightarrow> (exn + pydict) \<times> mem_store" where
  "mem_fetch_and_verify media_id user_id s =
     (case find (\<lambda>m. map_of m ''id'' = Some (PStr media_id)) (media s) of
        None \<Rightarrow> (Inl (HTTPException HTTP_404_NOT_FOUND ''Media not found''), s)
      | Some m \<Rightarrow>
          if map_of m ''userId'' = Some (PStr user_id) then (Inr m, s)
          else (Inl (HTTPException HTTP_404_NOT_FOUND ''Media not found''), s))"

definition mem_extract_thumbnail :: "pydict \<Rightarrow> exn + string option" where
  "mem_extract_thumbnail m =
     (case map_of m ''thumbnailUrl'' of
        Some (PStr url) \<Rightarrow> Inr (Some (drop (length ''blob://'') url))
      | _ \<Rightarrow> Inr None)"

definition mem_validate_file_type :: "upload \<Rightarrow> exn + string" where
  "mem_validate_file_type f =
     (if content_type f = ''image/jpeg'' then Inr ''image''
      else if content_type f = ''video/mp4'' then Inr ''video''
      else Inl (HTTPException HTTP_400_BAD_REQUEST ''Unsupported file type''))"

definition mem_validate_file_size :: "upload \<Rightarrow> exn + int" where
  "mem_validate_file_size f =
     (if 8 < length (content f) then Inl (HTTPException HTTP_400_BAD_REQUEST ''File too large'')
      else Inr (int (length (content f))))"

definition mem_json_loads :: "string \<Rightarrow> exn + pyval" where
  "mem_json_loads t =
     (if t = ''[1,2,3]'' then Inr (PList [PInt 1, PInt 2, PInt 3])
      else if t = ''42'' then Inr (PInt 42)
      else Inl (Raised (JSONDecodeError ''Expecting value'')))"

definition mem_create_access_token :: "pydict \<Rightarrow> exn + string" where
  "mem_create_access_token d =
     (case map_of d ''sub'' of
        Some (PStr u) \<Rightarrow> Inr (''token-of-'' @ u)
      | _ \<Rightarrow> Inl (Raised (OtherError ''no subject'')))"

definition mem_get_current_user_id :: "string \<Rightarrow> exn + string" where
  "mem_get_current_user_id bearer =
     (if take (length ''token-of-'') bearer = ''token-of-''
      then Inr (drop (length ''token-of-'') bearer)
      else Inl (HTTPException HTTP_401_UNAUTHORIZED ''Could not validate credentials''))"

definition mem_env :: "mem_store env" where
  "mem_env =
     \<lparr>get_current_user_id = mem_get_current_user_id,
      get_password_hash = (\<lambda>p. Inr (''hash:'' @ p)),
      verify_password = (\<lambda>p h. Inr (h = PStr (''hash:'' @ p))),
      create_access_token = mem_create_access_token,
      cosmos_db_get_user_by_email = mem_get_user_by_email,
      cosmos_db_create_user = mem_create_user,
      cosmos_db_create_media = mem_create_media,
      cosmos_db_update_media = mem_update_media,
      cosmos_db_delete_media = mem_delete_media,
      blob_storage_upload_file = mem_upload_file,
      blob_storage_delete_file = mem_delete_file,
      fetch_and_verify_media_ownership = mem_fetch_and_verify,
      extract_thumbnail_blob_identifier = mem_extract_thumbnail,
      validate_file_type = mem_validate_file_type,
      validate_file_size = mem_validate_file_size,
      generate_thumbnail = (\<lambda>c. Inr (Some (take 2 c))),
      json_loads = mem_json_loads\<rparr>"

text \<open>A world with an empty trace, identifiers \<^verbatim>\<open>uuid\<close>, \<^verbatim>\<open>uuid+\<close>, \<^verbatim>\<open>uuid++\<close>, ... and
  clock readings \<^verbatim>\<open>t\<close>, \<^verbatim>\<open>t+\<close>, ...\<close>

definition mem_world :: "mem_store \<Rightarrow> mem_store world" where
  "mem_world s =
     \<lparr>store = s, uuids = (\<lambda>n. ''uuid'' @ replicate n (CHR ''+'')), uuids_taken = 0,
      clock = (\<lambda>n. ''t'' @ replicate n (CHR ''+'')), clock_read = 0, trace = []\<rparr>"

definition alice :: pydict where
  "alice = [(''id'', PStr ''u1''), (''username'', PStr ''alice''),
            (''email'', PStr ''alice@example.com''), (''hashed_password'', PStr ''hash:secret''),
            (''created_at'', PStr ''2024-01-01T00:00:00'')]"

definition photo :: upload where
  "photo = \<lparr>filename = ''a.jpg'', content_type = ''image/jpeg'', content = ''abcd''\<rparr>"

definition alice_store :: mem_store where
  "alice_store = \<lparr>users = [alice], media = [], blobs = [], broken = []\<rparr>"

definition empty_store :: mem_store where
  "empty_store = \<lparr>users = [], media = [], blobs = [], broken = []\<rparr>"

definition faulty_store :: mem_store where
  "faulty_store = \<lparr>users = [alice], media = [], blobs = [], broken = [''u1/thumb_a.jpg'']\<rparr>"

definition text_file :: upload where
  "text_file = \<lparr>filename = ''a.txt'', content_type = ''text/plain'', content = ''abcd''\<rparr>"

definition big_photo :: upload where
  "big_photo = \<lparr>filename = ''b.jpg'', content_type = ''image/jpeg'', content = ''abcdefghi''\<rparr>"

definition holiday :: pydict where
  "holiday = media_payload ''m1'' ''u1'' ''u1/a.jpg'' photo ''image'' 4 ''blob://u1/a.jpg''
               (PStr ''blob://u1/thumb_a.jpg'') (Some ''old'') PNone ''t0''"

definition plain :: pydict where
  "plain = media_payload ''m2'' ''u1'' ''u1/c.mp4''
             \<lparr>filename = ''c.mp4'', content_type = ''video/mp4'', content = ''abcd''\<rparr>
             ''video'' 4 ''blob://u1/c.mp4'' PNone None PNone ''t0''"

definition media_store :: "string list \<Rightarrow> mem_store" where
  "media_store bad = \<lparr>users = [alice], media = [holiday, plain],
                      blobs = [''u1/a.jpg'', ''u1/thumb_a.jpg'', ''u1/c.mp4''], broken = bad\<rparr>"

text \<open>
  Modelled from the spec: \<^verbatim>\<open>cosmos_db.update_media\<close> is defined in \<^verbatim>\<open>database.py\<close>, which is
  not among the sources. The spec has an update change "only provided fields plus
  \<^verbatim>\<open>updatedAt\<close>": the store writes the entries of the payload into the stored record, as
  \<^verbatim>\<open>dict.update\<close> does, and returns the record.
\<close>

definition updated_document :: "pydict \<Rightarrow> pydict \<Rightarrow> pydict" where
  "updated_document existing payload = AList.merge existing payload"

text \<open>\<^verbatim>\<open>e.status_code\<close> of the outcome of a handler, when it raised an \<^verbatim>\<open>HTTPException\<close>.\<close>

fun status_code :: "exn + 'a \<Rightarrow> nat option" where
  "status_code (Inl (HTTPException c d)) = Some c"
| "status_code (Inl (Raised x)) = None"
| "status_code (Inr y) = None"

section \<open>Running the handlers\<close>

lemmas prog_defs =
  ret_def throw_def bind_def try_except_def lift_def emit_def call_def uuid4_def
  utcnow_isoformat_def

lemmas mem_defs =
  mem_env_def mem_world_def mem_get_user_by_email_def mem_create_user_def
  mem_create_access_token_def mem_create_media_def mem_update_media_def mem_delete_media_def
  mem_upload_file_def mem_delete_file_def mem_fetch_and_verify_def mem_extract_thumbnail_def
  mem_validate_file_type_def mem_validate_file_size_def mem_json_loads_def
  mem_get_current_user_id_def alice_def alice_store_def empty_store_def photo_def owned_by_def faulty_store_def
  text_file_def big_photo_def holiday_def plain_def media_store_def media_payload_def

lemmas upload_defs =
  upload_media_def upload_media_try_def upload_media_except_def MediaResponse_def

lemmas auth_defs =
  register_account_def register_account_try_def register_account_except_def
  login_account_def login_account_try_def login_account_found_def
  login_account_not_found_def login_account_except_def getitem_def UserResponse_def

section \<open>Login\<close>

lemma login_unknown_email:
  assumes "cosmos_db_get_user_by_email env (login_email c) (store w) = (Inr None, s1)"
  shows "login_account env c w =
           (Inl (HTTPException HTTP_401_UNAUTHORIZED ''Invalid email or password''),
            w\<lparr>store := s1,
              trace := trace w @
                [Log INFO (''Login attempt for email: '' @ login_email c),
                 GetUserByEmail (login_email c),
                 Log WARNING (''Login failed: User not found for email '' @ login_email c)]\<rparr>)"
  using assms by (simp add: auth_defs prog_defs)

lemma login_wrong_password:
  assumes "cosmos_db_get_user_by_email env (login_email c) (store w) = (Inr (Some r), s1)"
      and "r \<noteq> []"
      and "map_of r ''hashed_password'' = Some h"
      and "verify_password env (login_password c) h = Inr False"
  shows "login_account env c w =
           (Inl (HTTPException HTTP_401_UNAUTHORIZED ''Invalid email or password''),
            w\<lparr>store := s1,
              trace := trace w @
                [Log INFO (''Login attempt for email: '' @ login_email c),
                 GetUserByEmail (login_email c),
                 Log WARNING (''Login failed: Invalid password for email '' @ login_email c)]\<rparr>)"
  using assms by (simp add: auth_defs prog_defs)

text \<open>
  C2. A login that fails because the store knows no user of that email, and a login that
  fails because the password does not verify against the stored hash, raise the same
  exception: \<^verbatim>\<open>HTTPException(401, "Invalid email or password")\<close>. The two requests, the two
  worlds and the stored record are arbitrary; only the log lines, which the client does
  not see, tell the causes apart.
\<close>

theorem login_failures_indistinguishable:
  assumes unknown: "cosmos_db_get_user_by_email env (login_email c1) (store w1) = (Inr None, s1)"
      and known: "cosmos_db_get_user_by_email env (login_email c2) (store w2) = (Inr (Some r), s2)"
      and nonempty: "r \<noteq> []"
      and hashed: "map_of r ''hashed_password'' = Some h"
      and mismatch: "verify_password env (login_password c2) h = Inr False"
  shows "fst (login_account env c1 w1) =
           Inl (HTTPException HTTP_401_UNAUTHORIZED ''Invalid email or password'') \<and>
         fst (login_account env c2 w2) =
           Inl (HTTPException HTTP_401_UNAUTHORIZED ''Invalid email or password'') \<and>
         fst (login_account env c1 w1) = fst (login_account env c2 w2)"
proof -
  have a: "fst (login_account env c1 w1) =
             Inl (HTTPException HTTP_401_UNAUTHORIZED ''Invalid email or password'')"
    using login_unknown_email [OF unknown] by simp
  have b: "fst (login_account env c2 w2) =
             Inl (HTTPException HTTP_401_UNAUTHORIZED ''Invalid email or password'')"
    using login_wrong_password [OF known nonempty hashed mismatch] by simp
  from a b show ?thesis by simp
qed

theorem login_failures_indistinguishable_witness:
  "cosmos_db_get_user_by_email mem_env ''bob@example.com'' (store (mem_world alice_store))
     = (Inr None, alice_store) \<and>
   cosmos_db_get_user_by_email mem_env ''alice@example.com'' (store (mem_world alice_store))
     = (Inr (Some alice), alice_store) \<and>
   alice \<noteq> [] \<and>
   map_of alice ''hashed_password'' = Some (PStr ''hash:secret'') \<and>
   verify_password mem_env ''guess'' (PStr ''hash:secret'') = Inr False \<and>
   fst (login_account mem_env \<lparr>login_email = ''bob@example.com'', login_password = ''secret''\<rparr>
          (mem_world alice_store)) =
     Inl (HTTPException HTTP_401_UNAUTHORIZED ''Invalid email or password'') \<and>
   fst (login_account mem_env \<lparr>login_email = ''alice@example.com'', login_password = ''guess''\<rparr>
          (mem_world alice_store)) =
     Inl (HTTPException HTTP_401_UNAUTHORIZED ''Invalid email or password'')"
proof -
  have a: "cosmos_db_get_user_by_email mem_env
             (login_email \<lparr>login_email = ''bob@example.com'', login_password = ''secret''\<rparr>)
             (store (mem_world alice_store)) = (Inr None, alice_store)"
    by (simp add: mem_defs)
  have b: "cosmos_db_get_user_by_email mem_env
             (login_email \<lparr>login_email = ''alice@example.com'', login_password = ''guess''\<rparr>)
             (store (mem_world alice_store)) = (Inr (Some alice), alice_store)"
    by (simp add: mem_defs)
  have c: "alice \<noteq> []" by (simp add: alice_def)
  have d: "map_of alice ''hashed_password'' = Some (PStr ''hash:secret'')"
    by (simp add: alice_def)
  have e: "verify_password mem_env
             (login_password \<lparr>login_email = ''alice@example.com'', login_password = ''guess''\<rparr>)
             (PStr ''hash:secret'') = Inr False"
    by (simp add: mem_defs)
  from login_failures_indistinguishable [OF a b c d e] a b c d e
  show ?thesis by simp
qed

section \<open>Registration\<close>

lemma register_existing_email:
  assumes "cosmos_db_get_user_by_email env (email p) (store w) = (Inr (Some u), s1)"
      and "u \<noteq> []"
  shows "register_account env p w =
           (Inl (HTTPException HTTP_400_BAD_REQUEST ''User with this email already exists''),
            w\<lparr>store := s1,
              trace := trace w @
                [Log INFO (''Registration attempt for email: '' @ email p),
                 GetUserByEmail (email p),
                 Log WARNING (''Registration failed: Email already exists '' @ email p)]\<rparr>)"
  using assms by (simp add: auth_defs prog_defs)

text \<open>
  C8, as the code has it. When the store already holds a user of the request's email,
  \<^verbatim>\<open>register_account\<close> raises \<^verbatim>\<open>HTTPException(400, "User with this email already exists")\<close>:
  the status is Bad Request, not Conflict (409). Nothing but the lookup reaches the
  collaborators: the events added to the trace are the two log lines and the lookup, so
  no user is created and no token is issued; no identifier is drawn either.
\<close>

theorem register_existing_email_rejected:
  assumes existing: "cosmos_db_get_user_by_email env (email p) (store w) = (Inr (Some u), s1)"
      and nonempty: "u \<noteq> []"
  shows "fst (register_account env p w) =
           Inl (HTTPException HTTP_400_BAD_REQUEST ''User with this email already exists'') \<and>
         trace (snd (register_account env p w)) = trace w @
           [Log INFO (''Registration attempt for email: '' @ email p),
            GetUserByEmail (email p),
            Log WARNING (''Registration failed: Email already exists '' @ email p)] \<and>
         store (snd (register_account env p w)) = s1 \<and>
         uuids_taken (snd (register_account env p w)) = uuids_taken w"
  using register_existing_email [OF existing nonempty] by simp

theorem register_existing_email_rejected_witness:
  "cosmos_db_get_user_by_email mem_env ''alice@example.com'' (store (mem_world alice_store))
     = (Inr (Some alice), alice_store) \<and>
   alice \<noteq> [] \<and>
   fst (register_account mem_env
          \<lparr>username = ''eve'', email = ''alice@example.com'', password = ''pw''\<rparr>
          (mem_world alice_store)) =
     Inl (HTTPException HTTP_400_BAD_REQUEST ''User with this email already exists'') \<and>
   trace (snd (register_account mem_env
          \<lparr>username = ''eve'', email = ''alice@example.com'', password = ''pw''\<rparr>
          (mem_world alice_store))) =
     [Log INFO ''Registration attempt for email: alice@example.com'',
      GetUserByEmail ''alice@example.com'',
      Log WARNING ''Registration failed: Email already exists alice@example.com''] \<and>
   store (snd (register_account mem_env
          \<lparr>username = ''eve'', email = ''alice@example.com'', password = ''pw''\<rparr>
          (mem_world alice_store))) = alice_store"
proof -
  have a: "cosmos_db_get_user_by_email mem_env
             (email \<lparr>username = ''eve'', email = ''alice@example.com'', password = ''pw''\<rparr>)
             (store (mem_world alice_store)) = (Inr (Some alice), alice_store)"
    by (simp add: mem_defs)
  have b: "alice \<noteq> []" by (simp add: alice_def)
  from register_existing_email_rejected [OF a b] a b
  show ?thesis by (simp add: mem_world_def)
qed

text \<open>
  The claim C8 as stated fails: registering \<^verbatim>\<open>alice@example.com\<close> a second time, on the
  world the first registration left, is answered with status 400, which is not the
  Conflict status 409.
\<close>

theorem register_twice_not_conflict:
  "status_code (fst (register_account mem_env
      \<lparr>username = ''eve'', email = ''alice@example.com'', password = ''pw''\<rparr>
      (snd (register_account mem_env
         \<lparr>username = ''alice'', email = ''alice@example.com'', password = ''secret''\<rparr>
         (mem_world empty_store))))) = Some HTTP_400_BAD_REQUEST \<and>
   status_code (fst (register_account mem_env
      \<lparr>username = ''eve'', email = ''alice@example.com'', password = ''pw''\<rparr>
      (snd (register_account mem_env
         \<lparr>username = ''alice'', email = ''alice@example.com'', password = ''secret''\<rparr>
         (mem_world empty_store))))) \<noteq> Some HTTP_409_CONFLICT"
  by (simp add: auth_defs prog_defs mem_defs Let_def)

section \<open>Upload\<close>

lemma upload_type_rejected:
  assumes "validate_file_type env file = Inl (HTTPException c d)"
  shows "upload_media env file description tags user_id w = (Inl (HTTPException c d), w)"
  using assms by (simp add: upload_defs prog_defs)

lemma upload_size_rejected:
  assumes "validate_file_type env file = Inr k"
      and "validate_file_size env file = Inl (HTTPException c d)"
  shows "upload_media env file description tags user_id w = (Inl (HTTPException c d), w)"
  using assms by (simp add: upload_defs prog_defs)

text \<open>
  C3. When the type validation raises Bad Request, or the type validation passes and the
  size validation raises Bad Request, \<^verbatim>\<open>upload_media\<close> raises that same exception and
  leaves the world as it found it: no collaborator was called, so the events added to the
  trace hold no \<open>UploadFile\<close>.
\<close>

theorem upload_rejected_before_blob_store:
  assumes "validate_file_type env file = Inl (HTTPException HTTP_400_BAD_REQUEST d) \<or>
           (\<exists>k. validate_file_type env file = Inr k \<and>
                validate_file_size env file = Inl (HTTPException HTTP_400_BAD_REQUEST d))"
  shows "upload_media env file description tags user_id w =
           (Inl (HTTPException HTTP_400_BAD_REQUEST d), w) \<and>
         (\<forall>data u nm ct. UploadFile data u nm ct \<notin>
            set (drop (length (trace w))
                   (trace (snd (upload_media env file description tags user_id w)))))"
proof -
  have "upload_media env file description tags user_id w =
          (Inl (HTTPException HTTP_400_BAD_REQUEST d), w)"
    using assms upload_type_rejected upload_size_rejected by blast
  then show ?thesis by simp
qed

theorem upload_rejected_before_blob_store_witness:
  "validate_file_type mem_env text_file = Inl (HTTPException HTTP_400_BAD_REQUEST ''Unsupported file type'') \<and>
   upload_media mem_env text_file None None ''u1'' (mem_world alice_store) =
     (Inl (HTTPException HTTP_400_BAD_REQUEST ''Unsupported file type''), mem_world alice_store) \<and>
   validate_file_type mem_env big_photo = Inr ''image'' \<and>
   validate_file_size mem_env big_photo = Inl (HTTPException HTTP_400_BAD_REQUEST ''File too large'') \<and>
   upload_media mem_env big_photo None None ''u1'' (mem_world alice_store) =
     (Inl (HTTPException HTTP_400_BAD_REQUEST ''File too large''), mem_world alice_store)"
proof -
  have a: "validate_file_type mem_env text_file =
             Inl (HTTPException HTTP_400_BAD_REQUEST ''Unsupported file type'')"
    by (simp add: mem_defs)
  have b: "validate_file_type mem_env big_photo = Inr ''image''"
    by (simp add: mem_defs)
  have c: "validate_file_size mem_env big_photo =
             Inl (HTTPException HTTP_400_BAD_REQUEST ''File too large'')"
    by (simp add: mem_defs)
  have d: "\<exists>k. validate_file_type mem_env big_photo = Inr k \<and>
               validate_file_size mem_env big_photo =
                 Inl (HTTPException HTTP_400_BAD_REQUEST ''File too large'')"
    using b c by simp
  from upload_rejected_before_blob_store [OF disjI1, OF a]
       upload_rejected_before_blob_store [OF disjI2, OF d] a b c
  show ?thesis by simp
qed

lemma upload_tags_not_json:
  assumes "validate_file_type env file = Inr k"
      and "validate_file_size env file = Inr n"
      and "t \<noteq> []"
      and "json_loads env t = Inl (Raised (JSONDecodeError m))"
  shows "upload_media env file description (Some t) user_id w =
           (Inl (HTTPException HTTP_400_BAD_REQUEST ''Invalid tags format. Must be a JSON array.''),
            w)"
  using assms by (simp add: upload_defs parse_tags_def prog_defs)

text \<open>
  C1, where the code departs from it. A \<^verbatim>\<open>tags\<close> field that is valid JSON but not an array
  makes the handler raise \<^verbatim>\<open>ValueError("Tags must be an array")\<close> inside a \<^verbatim>\<open>try\<close> whose only
  clause is \<^verbatim>\<open>except json.JSONDecodeError\<close>. The \<^verbatim>\<open>ValueError\<close> passes that clause and
  reaches the outer \<^verbatim>\<open>except Exception\<close>: the answer is status 500 with detail
  \<^verbatim>\<open>Failed to upload media: Tags must be an array\<close>, not status 400. No blob is written and
  no record is created; an error line is logged. (A field that is not JSON at all is
  answered with 400, see \<open>upload_tags_not_json\<close>.)
\<close>

theorem upload_tags_not_array_internal_error:
  assumes "validate_file_type env file = Inr k"
      and "validate_file_size env file = Inr n"
      and "t \<noteq> []"
      and "json_loads env t = Inr v"
      and "\<not> is_list v"
  shows "upload_media env file description (Some t) user_id w =
           (Inl (HTTPException HTTP_500_INTERNAL_SERVER_ERROR
                   ''Failed to upload media: Tags must be an array''),
            w\<lparr>trace := trace w @
                [LogExc ERROR ''Upload error: '' (Raised (ValueError ''Tags must be an array''))]\<rparr>)"
  using assms by (simp add: upload_defs parse_tags_def prog_defs)

theorem upload_tags_not_array_internal_error_witness:
  "validate_file_type mem_env photo = Inr ''image'' \<and>
   validate_file_size mem_env photo = Inr 4 \<and>
   ''42'' \<noteq> [] \<and>
   json_loads mem_env ''42'' = Inr (PInt 42) \<and>
   \<not> is_list (PInt 42) \<and>
   fst (upload_media mem_env photo None (Some ''42'') ''u1'' (mem_world alice_store)) =
     Inl (HTTPException HTTP_500_INTERNAL_SERVER_ERROR
            ''Failed to upload media: Tags must be an array'') \<and>
   trace (snd (upload_media mem_env photo None (Some ''42'') ''u1'' (mem_world alice_store))) =
     [LogExc ERROR ''Upload error: '' (Raised (ValueError ''Tags must be an array''))]"
proof -
  have a: "validate_file_type mem_env photo = Inr ''image''" by (simp add: mem_defs)
  have b: "validate_file_size mem_env photo = Inr 4" by (simp add: mem_defs)
  have c: "''42'' \<noteq> []" by simp
  have d: "json_loads mem_env ''42'' = Inr (PInt 42)" by (simp add: mem_defs)
  have e: "\<not> is_list (PInt 42)" by simp
  from upload_tags_not_array_internal_error [OF a b c d e] a b d
  show ?thesis by (simp add: mem_world_def)
qed

lemma upload_thumbnail_failure:
  assumes vt: "validate_file_type env file = Inr ''image''"
      and vs: "validate_file_size env file = Inr n"
      and tg: "parse_tags env tags w = (Inr ptags, w)"
      and up1: "blob_storage_upload_file env (content file) user_id (filename file)
                  (content_type file) (store w) = (Inr (name, url), s1)"
      and th: "generate_thumbnail env (content file) = Inr (Some data)"
      and ne: "data \<noteq> []"
      and up2: "blob_storage_upload_file env data user_id (''thumb_'' @ filename file)
                  ''image/jpeg'' s1 = (Inl e, s2)"
      and cr: "cosmos_db_create_media env
                 (media_payload (uuids w (uuids_taken w)) user_id name file ''image'' n url PNone
                    description ptags (clock w (clock_read w))) s2 = (Inr persisted, s3)"
  shows "upload_media env file description tags user_id w =
           (Inr (HTTP_201_CREATED, persisted),
            w\<lparr>store := s3, uuids_taken := Suc (uuids_taken w),
              clock_read := Suc (clock_read w),
              trace := trace w @
                [UploadFile (content file) user_id (filename file) (content_type file),
                 UploadFile data user_id (''thumb_'' @ filename file) ''image/jpeg'',
                 LogExc WARNING ''Failed to upload thumbnail: '' e,
                 CreateMedia
                   (media_payload (uuids w (uuids_taken w)) user_id name file ''image'' n url
                      PNone description ptags (clock w (clock_read w)))]\<rparr>)"
  using vt vs tg up1 th ne up2 cr
  by (simp add: upload_defs upload_thumbnail_def prog_defs Let_def)

text \<open>
  C4. An image upload whose thumbnail blob upload raises \<open>e\<close> (any exception) still
  succeeds, given that everything else does: the validators pass, the tags parse, the
  primary blob is stored, a thumbnail is generated, and the document store persists the
  record, returning some document \<open>persisted\<close> and leaving its state \<open>s3\<close>. The failure
  is logged as a warning; the record handed to \<^verbatim>\<open>cosmos_db.create_media\<close> has
  \<^verbatim>\<open>thumbnailUrl = None\<close>; the world the handler leaves holds the store as that call left
  it; and the handler returns what the store returned, with status 201. So the response
  has \<^verbatim>\<open>thumbnailUrl = None\<close> whenever the store returns the thumbnail URL it was given.
\<close>

theorem upload_survives_thumbnail_failure:
  assumes vt: "validate_file_type env file = Inr ''image''"
      and vs: "validate_file_size env file = Inr n"
      and tg: "parse_tags env tags w = (Inr ptags, w)"
      and up1: "blob_storage_upload_file env (content file) user_id (filename file)
                  (content_type file) (store w) = (Inr (name, url), s1)"
      and th: "generate_thumbnail env (content file) = Inr (Some data)"
      and ne: "data \<noteq> []"
      and up2: "blob_storage_upload_file env data user_id (''thumb_'' @ filename file)
                  ''image/jpeg'' s1 = (Inl e, s2)"
      and cr: "cosmos_db_create_media env
                 (media_payload (uuids w (uuids_taken w)) user_id name file ''image'' n url PNone
                    description ptags (clock w (clock_read w))) s2 = (Inr persisted, s3)"
  shows "upload_media env file description tags user_id w =
           (Inr (HTTP_201_CREATED, persisted),
            w\<lparr>store := s3, uuids_taken := Suc (uuids_taken w),
              clock_read := Suc (clock_read w),
              trace := trace w @
                [UploadFile (content file) user_id (filename file) (content_type file),
                 UploadFile data user_id (''thumb_'' @ filename file) ''image/jpeg'',
                 LogExc WARNING ''Failed to upload thumbnail: '' e,
                 CreateMedia
                   (media_payload (uuids w (uuids_taken w)) user_id name file ''image'' n url
                      PNone description ptags (clock w (clock_read w)))]\<rparr>) \<and>
         store (snd (upload_media env file description tags user_id w)) = s3 \<and>
         map_of (media_payload (uuids w (uuids_taken w)) user_id name file ''image'' n url PNone
                   description ptags (clock w (clock_read w))) ''thumbnailUrl'' = Some PNone \<and>
         (map_of persisted ''thumbnailUrl'' =
            map_of (media_payload (uuids w (uuids_taken w)) user_id name file ''image'' n url
                      PNone description ptags (clock w (clock_read w))) ''thumbnailUrl'' \<longrightarrow>
          map_of (snd (projr (fst (upload_media env file description tags user_id w))))
            ''thumbnailUrl'' = Some PNone)"
proof -
  have run: "upload_media env file description tags user_id w =
           (Inr (HTTP_201_CREATED, persisted),
            w\<lparr>store := s3, uuids_taken := Suc (uuids_taken w),
              clock_read := Suc (clock_read w),
              trace := trace w @
                [UploadFile (content file) user_id (filename file) (content_type file),
                 UploadFile data user_id (''thumb_'' @ filename file) ''image/jpeg'',
                 LogExc WARNING ''Failed to upload thumbnail: '' e,
                 CreateMedia
                   (media_payload (uuids w (uuids_taken w)) user_id name file ''image'' n url
                      PNone description ptags (clock w (clock_read w)))]\<rparr>)"
    by (rule upload_thumbnail_failure [OF vt vs tg up1 th ne up2 cr])
  have none: "map_of (media_payload (uuids w (uuids_taken w)) user_id name file ''image'' n url
                PNone description ptags (clock w (clock_read w))) ''thumbnailUrl'' = Some PNone"
    by (simp add: media_payload_def)
  show ?thesis unfolding run using none by simp
qed

theorem upload_survives_thumbnail_failure_witness:
  "validate_file_type mem_env photo = Inr ''image'' \<and>
   validate_file_size mem_env photo = Inr 4 \<and>
   parse_tags mem_env None (mem_world faulty_store) = (Inr PNone, mem_world faulty_store) \<and>
   blob_storage_upload_file mem_env ''abcd'' ''u1'' ''a.jpg'' ''image/jpeg'' faulty_store =
     (Inr (''u1/a.jpg'', ''blob://u1/a.jpg''), faulty_store\<lparr>blobs := [''u1/a.jpg'']\<rparr>) \<and>
   generate_thumbnail mem_env ''abcd'' = Inr (Some ''ab'') \<and>
   blob_storage_upload_file mem_env ''ab'' ''u1'' ''thumb_a.jpg'' ''image/jpeg''
       (faulty_store\<lparr>blobs := [''u1/a.jpg'']\<rparr>) =
     (Inl (Raised (OtherError ''blob store unavailable'')),
      faulty_store\<lparr>blobs := [''u1/a.jpg'']\<rparr>) \<and>
   fst (upload_media mem_env photo None None ''u1'' (mem_world faulty_store)) =
     Inr (HTTP_201_CREATED,
          media_payload ''uuid'' ''u1'' ''u1/a.jpg'' photo ''image'' 4 ''blob://u1/a.jpg'' PNone
            None PNone ''t'') \<and>
   media (store (snd (upload_media mem_env photo None None ''u1'' (mem_world faulty_store)))) =
     [media_payload ''uuid'' ''u1'' ''u1/a.jpg'' photo ''image'' 4 ''blob://u1/a.jpg'' PNone
        None PNone ''t''] \<and>
   blobs (store (snd (upload_media mem_env photo None None ''u1'' (mem_world faulty_store)))) =
     [''u1/a.jpg''] \<and>
   map_of (snd (projr (fst (upload_media mem_env photo None None ''u1''
                              (mem_world faulty_store))))) ''thumbnailUrl'' = Some PNone \<and>
   trace (snd (upload_media mem_env photo None None ''u1'' (mem_world faulty_store))) =
     [UploadFile ''abcd'' ''u1'' ''a.jpg'' ''image/jpeg'',
      UploadFile ''ab'' ''u1'' ''thumb_a.jpg'' ''image/jpeg'',
      LogExc WARNING ''Failed to upload thumbnail: ''
        (Raised (OtherError ''blob store unavailable'')),
      CreateMedia
        (media_payload ''uuid'' ''u1'' ''u1/a.jpg'' photo ''image'' 4 ''blob://u1/a.jpg'' PNone
           None PNone ''t'')]"
proof -
  let ?w = "mem_world faulty_store"
  let ?s1 = "faulty_store\<lparr>blobs := [''u1/a.jpg'']\<rparr>"
  let ?P = "media_payload ''uuid'' ''u1'' ''u1/a.jpg'' photo ''image'' 4 ''blob://u1/a.jpg''
              PNone None PNone ''t''"
  have i: "uuids ?w (uuids_taken ?w) = ''uuid''" "clock ?w (clock_read ?w) = ''t''"
          "trace ?w = []" "store ?w = faulty_store"
    by (simp_all add: mem_world_def)
  have j: "content photo = ''abcd''" "filename photo = ''a.jpg''"
          "content_type photo = ''image/jpeg''"
    by (simp_all add: photo_def)
  have a: "validate_file_type mem_env photo = Inr ''image''" by (simp add: mem_defs)
  have b: "validate_file_size mem_env photo = Inr 4" by (simp add: mem_defs)
  have c: "parse_tags mem_env None ?w = (Inr PNone, ?w)" by (simp add: parse_tags_def ret_def)
  have d: "blob_storage_upload_file mem_env (content photo) ''u1'' (filename photo)
             (content_type photo) (store ?w) = (Inr (''u1/a.jpg'', ''blob://u1/a.jpg''), ?s1)"
    by (simp add: mem_env_def mem_upload_file_def mem_world_def faulty_store_def photo_def)
  have e: "generate_thumbnail mem_env (content photo) = Inr (Some ''ab'')"
    by (simp add: mem_env_def photo_def)
  have f: "''ab'' \<noteq> []" by simp
  have g: "blob_storage_upload_file mem_env ''ab'' ''u1'' (''thumb_'' @ filename photo)
             ''image/jpeg'' ?s1 = (Inl (Raised (OtherError ''blob store unavailable'')), ?s1)"
    by (simp add: mem_env_def mem_upload_file_def faulty_store_def photo_def)
  have h: "cosmos_db_create_media mem_env
             (media_payload (uuids ?w (uuids_taken ?w)) ''u1'' ''u1/a.jpg'' photo ''image'' 4
                ''blob://u1/a.jpg'' PNone None PNone (clock ?w (clock_read ?w))) ?s1 =
           (Inr ?P, ?s1\<lparr>media := [?P]\<rparr>)"
    unfolding i by (simp add: mem_env_def mem_create_media_def faulty_store_def)
  have k: "media (?s1\<lparr>media := [?P]\<rparr>) = [?P]" "blobs (?s1\<lparr>media := [?P]\<rparr>) = [''u1/a.jpg'']"
    by simp_all
  note r = upload_survives_thumbnail_failure [OF a b c d e f g h, unfolded i j]
  have r1: "upload_media mem_env photo None None ''u1'' ?w =
              (Inr (HTTP_201_CREATED, ?P),
               ?w\<lparr>store := ?s1\<lparr>media := [?P]\<rparr>, uuids_taken := Suc (uuids_taken ?w),
                  clock_read := Suc (clock_read ?w),
                  trace := [] @
                    [UploadFile ''abcd'' ''u1'' ''a.jpg'' ''image/jpeg'',
                     UploadFile ''ab'' ''u1'' (''thumb_'' @ ''a.jpg'') ''image/jpeg'',
                     LogExc WARNING ''Failed to upload thumbnail: ''
                       (Raised (OtherError ''blob store unavailable'')),
                     CreateMedia ?P]\<rparr>)"
    using r by (rule conjunct1)
  have r2: "map_of (snd (projr (fst (upload_media mem_env photo None None ''u1'' ?w))))
              ''thumbnailUrl'' = Some PNone"
    using r by simp
  have a': "validate_file_type mem_env photo = Inr ''image''" by (rule a)
  from a b c d [unfolded i j] e [unfolded j] g [unfolded j] r2 k
  show ?thesis unfolding r1 by simp
qed

lemma parse_tags_world: "snd (parse_tags env tags w) = w"
  by (simp add: parse_tags_def prog_defs split: option.split sum.split exn.split)

lemma upload_thumbnail_quiet:
  assumes "upload_thumbnail env file raw k uid w1 = (r, w2)"
  shows "uuids w2 = uuids w1 \<and> uuids_taken w2 = uuids_taken w1 \<and>
         (\<exists>evs. trace w2 = trace w1 @ evs \<and> (\<forall>p. CreateMedia p \<notin> set evs))"
  using assms
  by (auto simp add: upload_thumbnail_def prog_defs
           split: if_splits option.splits sum.splits exn.splits prod.splits)

lemma upload_media_create_events:
  assumes mem: "CreateMedia p \<in> set (drop (length (trace w)) (trace (snd (upload_media env file d t uid w))))"
  shows "map_of p ''userId'' = Some (PStr uid) \<and> map_of p ''id'' = Some (PStr (uuids w (uuids_taken w)))
      \<and> uuids_taken (snd (upload_media env file d t uid w)) = Suc (uuids_taken w)"
proof (cases "validate_file_type env file")
  case (Inl e)
  with mem show ?thesis
    by (cases e) (simp_all add: upload_defs prog_defs)
next
  case vt: (Inr k)
  show ?thesis
  proof (cases "validate_file_size env file")
    case (Inl e)
    with mem vt show ?thesis
      by (cases e) (simp_all add: upload_defs prog_defs)
  next
    case vs: (Inr n)
    obtain rt where pt: "parse_tags env t w = (rt, w)"
      using parse_tags_world [of env t w] by (cases "parse_tags env t w") simp
    show ?thesis
    proof (cases rt)
      case (Inl e)
      with mem vt vs pt show ?thesis
        by (cases e) (simp_all add: upload_defs prog_defs)
    next
      case ptags: (Inr parsed)
      obtain ru s1 where up: "blob_storage_upload_file env (content file) uid (filename file)
                                (content_type file) (store w) = (ru, s1)"
        by (cases "blob_storage_upload_file env (content file) uid (filename file)
                     (content_type file) (store w)")
      show ?thesis
      proof (cases ru)
        case (Inl e)
        with mem vt vs pt ptags up show ?thesis
          by (cases e) (simp_all add: upload_defs prog_defs)
      next
        case (Inr nu)
        obtain name url where nu: "nu = (name, url)" by (cases nu)
        let ?w1 = "w\<lparr>store := s1, trace := trace w @
                      [UploadFile (content file) uid (filename file) (content_type file)]\<rparr>"
        obtain rp w2 where th: "upload_thumbnail env file (content file) k uid ?w1 = (rp, w2)"
          by (cases "upload_thumbnail env file (content file) k uid ?w1")
        from upload_thumbnail_quiet [OF th]
        obtain evs where q: "uuids w2 = uuids w" "uuids_taken w2 = uuids_taken w"
          "trace w2 = trace w @ UploadFile (content file) uid (filename file) (content_type file) # evs"
          "\<forall>p. CreateMedia p \<notin> set evs"
          by auto
        show ?thesis
        proof (cases rp)
          case (Inl e)
          with mem vt vs pt ptags up Inr nu th q show ?thesis
            by (cases e) (simp_all add: upload_defs prog_defs)
        next
          case pv: (Inr preview)
          let ?P = "media_payload (uuids w (uuids_taken w)) uid name file k n url preview d parsed
                      (clock w2 (clock_read w2))"
          obtain rc s3 where cr: "cosmos_db_create_media env ?P (store w2) = (rc, s3)"
            by (cases "cosmos_db_create_media env ?P (store w2)")
          have P: "map_of ?P ''userId'' = Some (PStr uid)" "map_of ?P ''id'' = Some (PStr (uuids w (uuids_taken w)))"
            by (simp_all add: media_payload_def)
          show ?thesis
          proof (cases rc)
            case (Inl e)
            with mem vt vs pt ptags up Inr nu th q pv cr P show ?thesis
              by (cases e) (auto simp add: upload_defs prog_defs Let_def)
          next
            case (Inr persisted)
            with mem vt vs pt ptags up \<open>ru = Inr nu\<close> nu th q pv cr P show ?thesis
              by (auto simp add: upload_defs prog_defs Let_def)
          qed
        qed
      qed
    qed
  qed
qed


text \<open>
  C10. Whatever the collaborators do, every record that \<^verbatim>\<open>POST /media\<close> hands to
  \<^verbatim>\<open>cosmos_db.create_media\<close> has as \<^verbatim>\<open>userId\<close> the id that \<^verbatim>\<open>get_current_user_id\<close> resolved
  from the bearer token, and as \<^verbatim>\<open>id\<close> the next identifier of \<^verbatim>\<open>uuid.uuid4()\<close>, which the call
  uses up. Neither is read from the file, the description or the tags.
\<close>

theorem persisted_media_owner_and_id:
  assumes mem: "CreateMedia p \<in> set (drop (length (trace w))
                   (trace (snd (post_media env bearer file description tags w))))"
  shows "\<exists>uid. get_current_user_id env bearer = Inr uid \<and>
               map_of p ''userId'' = Some (PStr uid) \<and>
               map_of p ''id'' = Some (PStr (uuids w (uuids_taken w))) \<and>
               uuids_taken (snd (post_media env bearer file description tags w)) =
                 Suc (uuids_taken w)"
proof (cases "get_current_user_id env bearer")
  case (Inl e)
  with mem show ?thesis by (simp add: post_media_def prog_defs)
next
  case (Inr uid)
  then have eq: "post_media env bearer file description tags w =
                   upload_media env file description tags uid w"
    by (simp add: post_media_def prog_defs)
  from mem have "CreateMedia p \<in> set (drop (length (trace w))
                    (trace (snd (upload_media env file description tags uid w))))"
    unfolding eq .
  from upload_media_create_events [OF this] Inr
  show ?thesis unfolding eq by simp
qed

theorem persisted_media_owner_and_id_witness:
  "CreateMedia
     (media_payload ''uuid'' ''u1'' ''u1/a.jpg'' photo ''image'' 4 ''blob://u1/a.jpg''
        (PStr ''blob://u1/thumb_a.jpg'') (Some ''holiday'') (PList [PInt 1, PInt 2, PInt 3]) ''t'')
     \<in> set (drop (length (trace (mem_world alice_store)))
         (trace (snd (post_media mem_env ''token-of-u1'' photo (Some ''holiday'')
                        (Some ''[1,2,3]'') (mem_world alice_store))))) \<and>
   get_current_user_id mem_env ''token-of-u1'' = Inr ''u1'' \<and>
   map_of (media_payload ''uuid'' ''u1'' ''u1/a.jpg'' photo ''image'' 4 ''blob://u1/a.jpg''
        (PStr ''blob://u1/thumb_a.jpg'') (Some ''holiday'') (PList [PInt 1, PInt 2, PInt 3]) ''t'')
     ''userId'' = Some (PStr ''u1'') \<and>
   map_of (media_payload ''uuid'' ''u1'' ''u1/a.jpg'' photo ''image'' 4 ''blob://u1/a.jpg''
        (PStr ''blob://u1/thumb_a.jpg'') (Some ''holiday'') (PList [PInt 1, PInt 2, PInt 3]) ''t'')
     ''id'' = Some (PStr ''uuid'') \<and>
   uuids_taken (snd (post_media mem_env ''token-of-u1'' photo (Some ''holiday'')
                       (Some ''[1,2,3]'') (mem_world alice_store))) = 1"
proof -
  have run: "trace (snd (post_media mem_env ''token-of-u1'' photo (Some ''holiday'')
                           (Some ''[1,2,3]'') (mem_world alice_store))) =
     [UploadFile ''abcd'' ''u1'' ''a.jpg'' ''image/jpeg'',
      UploadFile ''ab'' ''u1'' ''thumb_a.jpg'' ''image/jpeg'',
      CreateMedia
        (media_payload ''uuid'' ''u1'' ''u1/a.jpg'' photo ''image'' 4 ''blob://u1/a.jpg''
           (PStr ''blob://u1/thumb_a.jpg'') (Some ''holiday'') (PList [PInt 1, PInt 2, PInt 3])
           ''t'')]"
    by (simp add: post_media_def upload_defs parse_tags_def upload_thumbnail_def prog_defs
          mem_defs Let_def)
  have mem: "CreateMedia
     (media_payload ''uuid'' ''u1'' ''u1/a.jpg'' photo ''image'' 4 ''blob://u1/a.jpg''
        (PStr ''blob://u1/thumb_a.jpg'') (Some ''holiday'') (PList [PInt 1, PInt 2, PInt 3]) ''t'')
     \<in> set (drop (length (trace (mem_world alice_store)))
         (trace (snd (post_media mem_env ''token-of-u1'' photo (Some ''holiday'')
                        (Some ''[1,2,3]'') (mem_world alice_store)))))"
    unfolding run by (simp add: mem_world_def)
  from persisted_media_owner_and_id [OF mem] mem
  show ?thesis by (auto simp add: mem_world_def media_payload_def)
qed

section \<open>Responses of the auth handlers\<close>

lemma login_response:
  assumes ok: "login_account env c w = (Inr (st, tok), w')"
      and rec: "cosmos_db_get_user_by_email env (login_email c) (store w) = (Inr (Some r), s1)"
  shows "\<exists>i u e t.
           map_of r ''id'' = Some i \<and> map_of r ''username'' = Some u \<and>
           map_of r ''email'' = Some e \<and> map_of r ''created_at'' = Some t \<and>
           user tok = [(''id'', i), (''username'', u), (''email'', e), (''createdAt'', t)] \<and>
           create_access_token env [(''sub'', i), (''email'', e)] = Inr (token tok)"
  using assms
  by (auto simp add: auth_defs prog_defs Let_def
           split: if_splits option.splits sum.splits exn.splits prod.splits)

lemma register_response:
  assumes ok: "register_account env p w = (Inr (st, tok), w')"
      and lookup: "cosmos_db_get_user_by_email env (email p) (store w) = (r0, s1)"
      and hash: "get_password_hash env (password p) = Inr h"
      and create: "cosmos_db_create_user env
                     [(''id'', PStr (uuids w (uuids_taken w))),
                      (''username'', PStr (username p)),
                      (''email'', PStr (email p)),
                      (''hashed_password'', PStr h),
                      (''created_at'', PStr (clock w (clock_read w)))] s1 = (Inr persisted, s2)"
  shows "\<exists>i u e t.
           map_of persisted ''id'' = Some i \<and> map_of persisted ''username'' = Some u \<and>
           map_of persisted ''email'' = Some e \<and> map_of persisted ''created_at'' = Some t \<and>
           user tok = [(''id'', i), (''username'', u), (''email'', e), (''createdAt'', t)] \<and>
           create_access_token env [(''sub'', PStr (uuids w (uuids_taken w))),
                                    (''email'', PStr (email p))] = Inr (token tok)"
  using assms
  by (auto simp add: auth_defs prog_defs Let_def
           split: if_splits option.splits sum.splits exn.splits prod.splits)

text \<open>
  C9. A successful login returns a user object with exactly the four entries \<^verbatim>\<open>id\<close>,
  \<^verbatim>\<open>username\<close>, \<^verbatim>\<open>email\<close>, \<^verbatim>\<open>createdAt\<close>, read from the entries \<^verbatim>\<open>id\<close>, \<^verbatim>\<open>username\<close>,
  \<^verbatim>\<open>email\<close>, \<^verbatim>\<open>created_at\<close> of the record the store returned, and a token issued over
  \<^verbatim>\<open>sub\<close> and \<^verbatim>\<open>email\<close> alone. A successful registration returns the same four entries,
  read from the record \<^verbatim>\<open>create_user\<close> returned; the document it stored does hold
  \<^verbatim>\<open>hashed_password\<close>, the response has no entry of that name.
\<close>

theorem auth_responses_omit_hashed_password:
  "(login_account env c w = (Inr (st, tok), w') \<longrightarrow>
    cosmos_db_get_user_by_email env (login_email c) (store w) = (Inr (Some r), s1) \<longrightarrow>
      map fst (user tok) = [''id'', ''username'', ''email'', ''createdAt''] \<and>
      ''hashed_password'' \<notin> set (map fst (user tok)) \<and>
      (\<exists>i u e t.
         map_of r ''id'' = Some i \<and> map_of r ''username'' = Some u \<and>
         map_of r ''email'' = Some e \<and> map_of r ''created_at'' = Some t \<and>
         user tok = [(''id'', i), (''username'', u), (''email'', e), (''createdAt'', t)] \<and>
         create_access_token env [(''sub'', i), (''email'', e)] = Inr (token tok))) \<and>
   (register_account env p v = (Inr (st', tok'), v') \<longrightarrow>
    cosmos_db_get_user_by_email env (email p) (store v) = (r0, s2) \<longrightarrow>
    get_password_hash env (password p) = Inr h \<longrightarrow>
    cosmos_db_create_user env
      [(''id'', PStr (uuids v (uuids_taken v))),
       (''username'', PStr (username p)),
       (''email'', PStr (email p)),
       (''hashed_password'', PStr h),
       (''created_at'', PStr (clock v (clock_read v)))] s2 = (Inr persisted, s3) \<longrightarrow>
      map fst (user tok') = [''id'', ''username'', ''email'', ''createdAt''] \<and>
      ''hashed_password'' \<notin> set (map fst (user tok')) \<and>
      (\<exists>i u e t.
         map_of persisted ''id'' = Some i \<and> map_of persisted ''username'' = Some u \<and>
         map_of persisted ''email'' = Some e \<and> map_of persisted ''created_at'' = Some t \<and>
         user tok' = [(''id'', i), (''username'', u), (''email'', e), (''createdAt'', t)] \<and>
         create_access_token env [(''sub'', PStr (uuids v (uuids_taken v))),
                                  (''email'', PStr (email p))] = Inr (token tok')))"
proof (intro conjI impI)
  assume ok: "login_account env c w = (Inr (st, tok), w')"
     and rec: "cosmos_db_get_user_by_email env (login_email c) (store w) = (Inr (Some r), s1)"
  from login_response [OF ok rec]
  show "\<exists>i u e t.
         map_of r ''id'' = Some i \<and> map_of r ''username'' = Some u \<and>
         map_of r ''email'' = Some e \<and> map_of r ''created_at'' = Some t \<and>
         user tok = [(''id'', i), (''username'', u), (''email'', e), (''createdAt'', t)] \<and>
         create_access_token env [(''sub'', i), (''email'', e)] = Inr (token tok)" .
  then show "map fst (user tok) = [''id'', ''username'', ''email'', ''createdAt'']"
    by auto
  then show "''hashed_password'' \<notin> set (map fst (user tok))" by simp
next
  assume ok: "register_account env p v = (Inr (st', tok'), v')"
     and lookup: "cosmos_db_get_user_by_email env (email p) (store v) = (r0, s2)"
     and hash: "get_password_hash env (password p) = Inr h"
     and create: "cosmos_db_create_user env
                    [(''id'', PStr (uuids v (uuids_taken v))),
                     (''username'', PStr (username p)),
                     (''email'', PStr (email p)),
                     (''hashed_password'', PStr h),
                     (''created_at'', PStr (clock v (clock_read v)))] s2 = (Inr persisted, s3)"
  from register_response [OF ok lookup hash create]
  show "\<exists>i u e t.
         map_of persisted ''id'' = Some i \<and> map_of persisted ''username'' = Some u \<and>
         map_of persisted ''email'' = Some e \<and> map_of persisted ''created_at'' = Some t \<and>
         user tok' = [(''id'', i), (''username'', u), (''email'', e), (''createdAt'', t)] \<and>
         create_access_token env [(''sub'', PStr (uuids v (uuids_taken v))),
                                  (''email'', PStr (email p))] = Inr (token tok')" .
  then show "map fst (user tok') = [''id'', ''username'', ''email'', ''createdAt'']"
    by auto
  then show "''hashed_password'' \<notin> set (map fst (user tok'))" by simp
qed

theorem auth_responses_omit_hashed_password_witness:
  "fst (login_account mem_env
          \<lparr>login_email = ''alice@example.com'', login_password = ''secret''\<rparr>
          (mem_world alice_store)) =
     Inr (HTTP_200_OK,
          \<lparr>token = ''token-of-u1'',
           user = [(''id'', PStr ''u1''), (''username'', PStr ''alice''),
                   (''email'', PStr ''alice@example.com''),
                   (''createdAt'', PStr ''2024-01-01T00:00:00'')]\<rparr>) \<and>
   cosmos_db_get_user_by_email mem_env ''alice@example.com'' (store (mem_world alice_store)) =
     (Inr (Some alice), alice_store) \<and>
   map_of alice ''hashed_password'' = Some (PStr ''hash:secret'') \<and>
   fst (register_account mem_env
          \<lparr>username = ''bob'', email = ''bob@example.com'', password = ''pw''\<rparr>
          (mem_world alice_store)) =
     Inr (HTTP_200_OK,
          \<lparr>token = ''token-of-uuid'',
           user = [(''id'', PStr ''uuid''), (''username'', PStr ''bob''),
                   (''email'', PStr ''bob@example.com''), (''createdAt'', PStr ''t'')]\<rparr>) \<and>
   get_password_hash mem_env ''pw'' = Inr ''hash:pw'' \<and>
   ''hashed_password'' \<notin> set (map fst
      [(''id'', PStr ''uuid''), (''username'', PStr ''bob''),
       (''email'', PStr ''bob@example.com''), (''createdAt'', PStr ''t'')])"
proof -
  let ?c = "\<lparr>login_email = ''alice@example.com'', login_password = ''secret''\<rparr>"
  let ?p = "\<lparr>username = ''bob'', email = ''bob@example.com'', password = ''pw''\<rparr>"
  let ?w = "mem_world alice_store"
  let ?tok = "\<lparr>token = ''token-of-u1'',
               user = [(''id'', PStr ''u1''), (''username'', PStr ''alice''),
                       (''email'', PStr ''alice@example.com''),
                       (''createdAt'', PStr ''2024-01-01T00:00:00'')]\<rparr>"
  let ?tok' = "\<lparr>token = ''token-of-uuid'',
                user = [(''id'', PStr ''uuid''), (''username'', PStr ''bob''),
                        (''email'', PStr ''bob@example.com''), (''createdAt'', PStr ''t'')]\<rparr>"
  let ?doc = "[(''id'', PStr ''uuid''), (''username'', PStr ''bob''),
               (''email'', PStr ''bob@example.com''), (''hashed_password'', PStr ''hash:pw''),
               (''created_at'', PStr ''t'')]"
  have a: "fst (login_account mem_env ?c ?w) = Inr (HTTP_200_OK, ?tok)"
    by (simp add: auth_defs prog_defs mem_defs Let_def)
  have a': "login_account mem_env ?c ?w = (Inr (HTTP_200_OK, ?tok), snd (login_account mem_env ?c ?w))"
    using a by (cases "login_account mem_env ?c ?w") simp
  have b: "cosmos_db_get_user_by_email mem_env (login_email ?c) (store ?w) =
             (Inr (Some alice), alice_store)"
    by (simp add: mem_defs)
  have c: "fst (register_account mem_env ?p ?w) = Inr (HTTP_200_OK, ?tok')"
    by (simp add: auth_defs prog_defs mem_defs Let_def)
  have c': "register_account mem_env ?p ?w =
              (Inr (HTTP_200_OK, ?tok'), snd (register_account mem_env ?p ?w))"
    using c by (cases "register_account mem_env ?p ?w") simp
  have d: "cosmos_db_get_user_by_email mem_env (email ?p) (store ?w) = (Inr None, alice_store)"
    by (simp add: mem_defs)
  have e: "get_password_hash mem_env (password ?p) = Inr ''hash:pw''"
    by (simp add: mem_defs)
  have f: "cosmos_db_create_user mem_env
             [(''id'', PStr (uuids ?w (uuids_taken ?w))),
              (''username'', PStr (username ?p)),
              (''email'', PStr (email ?p)),
              (''hashed_password'', PStr ''hash:pw''),
              (''created_at'', PStr (clock ?w (clock_read ?w)))] alice_store =
           (Inr ?doc, alice_store\<lparr>users := users alice_store @ [?doc]\<rparr>)"
    by (simp add: mem_env_def mem_create_user_def mem_world_def)
  from auth_responses_omit_hashed_password
         [of mem_env ?c ?w HTTP_200_OK ?tok "snd (login_account mem_env ?c ?w)" alice alice_store
             ?p ?w HTTP_200_OK ?tok' "snd (register_account mem_env ?p ?w)" "Inr None"
             alice_store "''hash:pw''" ?doc "alice_store\<lparr>users := users alice_store @ [?doc]\<rparr>"]
       a' b c' d e f a c
  show ?thesis by (simp add: alice_def)
qed

section \<open>Update\<close>

lemma map_of_update_payload:
  "map_of (update_payload now u) k =
     (if k = ''updatedAt'' then Some (PStr now)
      else if k = ''description'' then map_option PStr (upd_description u)
      else if k = ''tags'' then map_option (\<lambda>t. PList (map PStr t)) (upd_tags u)
      else None)"
  by (cases "upd_description u"; cases "upd_tags u")
     (simp_all add: update_payload_def update_conv')

lemma update_run:
  assumes fetch: "fetch_and_verify_media_ownership env media_id user_id (store w) = (Inr existing, s1)"
      and upd: "cosmos_db_update_media env media_id user_id
                  (update_payload (clock w (clock_read w)) update_data) s1 = (Inr updated, s2)"
  shows "update_media_metadata env media_id update_data user_id w =
           (Inr (HTTP_200_OK, updated),
            w\<lparr>store := s2, clock_read := Suc (clock_read w),
              trace := trace w @
                [FetchAndVerify media_id user_id,
                 UpdateMedia media_id user_id (update_payload (clock w (clock_read w)) update_data)]\<rparr>)"
  using assms
  by (simp add: update_media_metadata_def update_media_metadata_try_def
        update_media_metadata_except_def MediaResponse_def prog_defs Let_def)


lemma map_of_updated_document:
  "map_of (updated_document existing P) k =
     (case map_of P k of None \<Rightarrow> map_of existing k | Some v \<Rightarrow> Some v)"
  by (simp add: updated_document_def merge_conv' map_add_def)

text \<open>
  C5. An update of a record the caller owns makes one write to the document store: the
  payload \<open>update_payload\<close>, which holds \<^verbatim>\<open>updatedAt\<close> and the fields of the request that
  are not \<^verbatim>\<open>None\<close>, and nothing else. With the store writing the payload into the record
  (\<open>updated_document\<close>) and returning it, the response has the new \<^verbatim>\<open>updatedAt\<close>, the
  provided description and tags, and every other entry as it was in the stored record:
  an omitted description or tags field, and each of \<^verbatim>\<open>id\<close>, \<^verbatim>\<open>userId\<close>, \<^verbatim>\<open>fileName\<close>,
  \<^verbatim>\<open>originalFileName\<close>, \<^verbatim>\<open>mediaType\<close>, \<^verbatim>\<open>fileSize\<close>, \<^verbatim>\<open>mimeType\<close>, \<^verbatim>\<open>blobUrl\<close>,
  \<^verbatim>\<open>thumbnailUrl\<close>, \<^verbatim>\<open>uploadedAt\<close>.
\<close>

theorem update_changes_only_provided_fields:
  assumes fetch: "fetch_and_verify_media_ownership env media_id user_id (store w) =
                    (Inr existing, s1)"
      and upd: "cosmos_db_update_media env media_id user_id
                  (update_payload (clock w (clock_read w)) update_data) s1 =
                (Inr (updated_document existing
                        (update_payload (clock w (clock_read w)) update_data)), s2)"
  shows "\<exists>body.
           fst (update_media_metadata env media_id update_data user_id w) =
             Inr (HTTP_200_OK, body) \<and>
           trace (snd (update_media_metadata env media_id update_data user_id w)) = trace w @
             [FetchAndVerify media_id user_id,
              UpdateMedia media_id user_id
                (update_payload (clock w (clock_read w)) update_data)] \<and>
           map fst (update_payload (clock w (clock_read w)) update_data) =
             [''updatedAt''] @
             (case upd_description update_data of None \<Rightarrow> [] | Some d \<Rightarrow> [''description'']) @
             (case upd_tags update_data of None \<Rightarrow> [] | Some t \<Rightarrow> [''tags'']) \<and>
           map_of body ''updatedAt'' = Some (PStr (clock w (clock_read w))) \<and>
           map_of body ''description'' =
             (case upd_description update_data of
                None \<Rightarrow> map_of existing ''description''
              | Some d \<Rightarrow> Some (PStr d)) \<and>
           map_of body ''tags'' =
             (case upd_tags update_data of
                None \<Rightarrow> map_of existing ''tags''
              | Some t \<Rightarrow> Some (PList (map PStr t))) \<and>
           (\<forall>k. k \<notin> {''updatedAt'', ''description'', ''tags''} \<longrightarrow>
                map_of body k = map_of existing k)"
proof -
  let ?P = "update_payload (clock w (clock_read w)) update_data"
  have run: "update_media_metadata env media_id update_data user_id w =
               (Inr (HTTP_200_OK, updated_document existing ?P),
                w\<lparr>store := s2, clock_read := Suc (clock_read w),
                  trace := trace w @
                    [FetchAndVerify media_id user_id, UpdateMedia media_id user_id ?P]\<rparr>)"
    by (rule update_run [OF fetch upd])
  have keys: "map fst ?P =
                [''updatedAt''] @
                (case upd_description update_data of None \<Rightarrow> [] | Some d \<Rightarrow> [''description'']) @
                (case upd_tags update_data of None \<Rightarrow> [] | Some t \<Rightarrow> [''tags''])"
    by (cases "upd_description update_data"; cases "upd_tags update_data")
       (simp_all add: update_payload_def)
  show ?thesis
    apply (rule exI [of _ "updated_document existing ?P"])
    apply (simp only: run fst_conv snd_conv keys map_of_updated_document map_of_update_payload)
    apply (cases "upd_description update_data"; cases "upd_tags update_data")
       apply simp_all
    done
qed

theorem update_changes_only_provided_fields_witness:
  "fetch_and_verify_media_ownership mem_env ''m1'' ''u1'' (store (mem_world (media_store []))) =
     (Inr holiday, media_store []) \<and>
   fst (update_media_metadata mem_env ''m1'' \<lparr>upd_description = Some ''new'', upd_tags = None\<rparr>
          ''u1'' (mem_world (media_store []))) =
     Inr (HTTP_200_OK,
          updated_document holiday [(''updatedAt'', PStr ''t''), (''description'', PStr ''new'')]) \<and>
   map_of (updated_document holiday
             [(''updatedAt'', PStr ''t''), (''description'', PStr ''new'')]) ''description'' =
     Some (PStr ''new'') \<and>
   map_of (updated_document holiday
             [(''updatedAt'', PStr ''t''), (''description'', PStr ''new'')]) ''tags'' =
     map_of holiday ''tags'' \<and>
   map_of (updated_document holiday
             [(''updatedAt'', PStr ''t''), (''description'', PStr ''new'')]) ''blobUrl'' =
     Some (PStr ''blob://u1/a.jpg'')"
proof -
  let ?w = "mem_world (media_store [])"
  let ?u = "\<lparr>upd_description = Some ''new'', upd_tags = None\<rparr>"
  let ?P = "[(''updatedAt'', PStr ''t''), (''description'', PStr ''new'')]"
  have p: "update_payload (clock ?w (clock_read ?w)) ?u = ?P"
    by (simp add: update_payload_def mem_world_def)
  have a: "fetch_and_verify_media_ownership mem_env ''m1'' ''u1'' (store ?w) =
             (Inr holiday, media_store [])"
    by (simp add: mem_env_def mem_world_def mem_fetch_and_verify_def media_store_def
          holiday_def plain_def media_payload_def)
  have f: "find (owned_by ''m1'' ''u1'') (media (media_store [])) = Some holiday"
    by (simp add: media_store_def owned_by_def holiday_def media_payload_def)
  have b: "cosmos_db_update_media mem_env ''m1'' ''u1''
             (update_payload (clock ?w (clock_read ?w)) ?u) (media_store []) =
           (Inr (updated_document holiday (update_payload (clock ?w (clock_read ?w)) ?u)),
            snd (cosmos_db_update_media mem_env ''m1'' ''u1''
                   (update_payload (clock ?w (clock_read ?w)) ?u) (media_store [])))"
    by (simp add: mem_env_def mem_update_media_def f updated_document_def)
  from update_changes_only_provided_fields [OF a b]
  have used: "\<exists>body. fst (update_media_metadata mem_env ''m1'' ?u ''u1'' ?w) =
                        Inr (HTTP_200_OK, body)"
    by (elim exE conjE) (rule exI, assumption)
  have r: "fst (update_media_metadata mem_env ''m1'' ?u ''u1'' ?w) =
             Inr (HTTP_200_OK, updated_document holiday ?P)"
    using update_run [OF a b] unfolding p by simp
  have m1: "map_of (updated_document holiday ?P) ''description'' = Some (PStr ''new'')"
    by (simp add: map_of_updated_document)
  have m2: "map_of (updated_document holiday ?P) ''tags'' = map_of holiday ''tags''"
    by (simp add: map_of_updated_document)
  have m3: "map_of (updated_document holiday ?P) ''blobUrl'' = Some (PStr ''blob://u1/a.jpg'')"
    by (simp add: map_of_updated_document holiday_def media_payload_def)
  from used a r m1 m2 m3 show ?thesis by simp
qed

section \<open>Delete\<close>

lemmas delete_defs = delete_media_def delete_media_try_def delete_media_except_def
  delete_thumbnail_def getitem_def

lemma delete_thumbnail_failure:
  assumes "fetch_and_verify_media_ownership env media_id user_id (store w) = (Inr r, s1)"
      and "map_of r ''fileName'' = Some fn"
      and "blob_storage_delete_file env fn s1 = (Inr (), s2)"
      and "extract_thumbnail_blob_identifier env r = Inr (Some b)"
      and "b \<noteq> []"
      and "blob_storage_delete_file env (PStr b) s2 = (Inl e, s3)"
      and "cosmos_db_delete_media env media_id user_id s3 = (Inr (), s4)"
  shows "delete_media env media_id user_id w =
           (Inr (HTTP_204_NO_CONTENT, ()),
            w\<lparr>store := s4,
              trace := trace w @
                [FetchAndVerify media_id user_id, DeleteFile fn, DeleteFile (PStr b),
                 LogExc WARNING ''Thumbnail deletion failed: '' e,
                 DeleteMedia media_id user_id]\<rparr>)"
  using assms by (simp add: delete_defs prog_defs)

lemma delete_primary_failure:
  assumes "fetch_and_verify_media_ownership env media_id user_id (store w) = (Inr r, s1)"
      and "map_of r ''fileName'' = Some fn"
      and "blob_storage_delete_file env fn s1 = (Inl e, s2)"
  shows "delete_media env media_id user_id w =
           (case e of
              HTTPException c d \<Rightarrow>
                (Inl e, w\<lparr>store := s2,
                          trace := trace w @ [FetchAndVerify media_id user_id, DeleteFile fn]\<rparr>)
            | Raised x \<Rightarrow>
                (Inl (HTTPException HTTP_500_INTERNAL_SERVER_ERROR ''Failed to delete media''),
                 w\<lparr>store := s2,
                   trace := trace w @ [FetchAndVerify media_id user_id, DeleteFile fn,
                                       LogExc ERROR ''Delete media error: '' e]\<rparr>))"
  using assms by (cases e) (simp_all add: delete_defs prog_defs)

lemma delete_no_thumbnail:
  assumes "fetch_and_verify_media_ownership env media_id user_id (store w) = (Inr r, s1)"
      and "map_of r ''fileName'' = Some fn"
      and "blob_storage_delete_file env fn s1 = (Inr (), s2)"
      and "extract_thumbnail_blob_identifier env r = Inr preview"
      and "\<not> truthy_str preview"
      and "cosmos_db_delete_media env media_id user_id s2 = (Inr (), s3)"
  shows "delete_media env media_id user_id w =
           (Inr (HTTP_204_NO_CONTENT, ()),
            w\<lparr>store := s3,
              trace := trace w @
                [FetchAndVerify media_id user_id, DeleteFile fn, DeleteMedia media_id user_id]\<rparr>)"
  using assms by (cases preview) (simp_all add: delete_defs prog_defs)


text \<open>
  C6. When the helper names a thumbnail blob and deleting it raises \<open>e\<close> (any exception),
  the failure is logged as a warning, the record is still deleted from the document store
  and the handler returns status 204. When deleting the primary blob raises, the handler
  raises (the same \<^verbatim>\<open>HTTPException\<close>, or status 500 for any other exception) and
  \<^verbatim>\<open>cosmos_db.delete_media\<close> is not called.
\<close>

theorem delete_thumbnail_failure_not_fatal:
  "(fetch_and_verify_media_ownership env media_id user_id (store w) = (Inr r, s1) \<longrightarrow>
    map_of r ''fileName'' = Some fn \<longrightarrow>
    blob_storage_delete_file env fn s1 = (Inr (), s2) \<longrightarrow>
    extract_thumbnail_blob_identifier env r = Inr (Some b) \<longrightarrow>
    b \<noteq> [] \<longrightarrow>
    blob_storage_delete_file env (PStr b) s2 = (Inl e, s3) \<longrightarrow>
    cosmos_db_delete_media env media_id user_id s3 = (Inr (), s4) \<longrightarrow>
      delete_media env media_id user_id w =
        (Inr (HTTP_204_NO_CONTENT, ()),
         w\<lparr>store := s4,
           trace := trace w @
             [FetchAndVerify media_id user_id, DeleteFile fn, DeleteFile (PStr b),
              LogExc WARNING ''Thumbnail deletion failed: '' e,
              DeleteMedia media_id user_id]\<rparr>)) \<and>
   (fetch_and_verify_media_ownership env media_id user_id (store w) = (Inr r, s1) \<longrightarrow>
    map_of r ''fileName'' = Some fn \<longrightarrow>
    blob_storage_delete_file env fn s1 = (Inl e', s2') \<longrightarrow>
      fst (delete_media env media_id user_id w) =
        Inl (case e' of
               HTTPException c d \<Rightarrow> e'
             | Raised x \<Rightarrow>
                 HTTPException HTTP_500_INTERNAL_SERVER_ERROR ''Failed to delete media'') \<and>
      (\<forall>m u. DeleteMedia m u \<notin>
         set (drop (length (trace w)) (trace (snd (delete_media env media_id user_id w))))))"
proof (intro conjI impI)
  assume "fetch_and_verify_media_ownership env media_id user_id (store w) = (Inr r, s1)"
     and "map_of r ''fileName'' = Some fn"
     and "blob_storage_delete_file env fn s1 = (Inr (), s2)"
     and "extract_thumbnail_blob_identifier env r = Inr (Some b)"
     and "b \<noteq> []"
     and "blob_storage_delete_file env (PStr b) s2 = (Inl e, s3)"
     and "cosmos_db_delete_media env media_id user_id s3 = (Inr (), s4)"
  then show "delete_media env media_id user_id w =
        (Inr (HTTP_204_NO_CONTENT, ()),
         w\<lparr>store := s4,
           trace := trace w @
             [FetchAndVerify media_id user_id, DeleteFile fn, DeleteFile (PStr b),
              LogExc WARNING ''Thumbnail deletion failed: '' e,
              DeleteMedia media_id user_id]\<rparr>)"
    by (rule delete_thumbnail_failure)
next
  assume a: "fetch_and_verify_media_ownership env media_id user_id (store w) = (Inr r, s1)"
     and b: "map_of r ''fileName'' = Some fn"
     and c: "blob_storage_delete_file env fn s1 = (Inl e', s2')"
  from delete_primary_failure [OF a b c]
  show "fst (delete_media env media_id user_id w) =
        Inl (case e' of
               HTTPException c d \<Rightarrow> e'
             | Raised x \<Rightarrow>
                 HTTPException HTTP_500_INTERNAL_SERVER_ERROR ''Failed to delete media'')"
    by (cases e') simp_all
  from delete_primary_failure [OF a b c]
  show "\<forall>m u. DeleteMedia m u \<notin>
         set (drop (length (trace w)) (trace (snd (delete_media env media_id user_id w))))"
    by (cases e') simp_all
qed

theorem delete_thumbnail_failure_not_fatal_witness:
  "fetch_and_verify_media_ownership mem_env ''m1'' ''u1''
       (store (mem_world (media_store [''u1/thumb_a.jpg'']))) =
     (Inr holiday, media_store [''u1/thumb_a.jpg'']) \<and>
   map_of holiday ''fileName'' = Some (PStr ''u1/a.jpg'') \<and>
   extract_thumbnail_blob_identifier mem_env holiday = Inr (Some ''u1/thumb_a.jpg'') \<and>
   fst (delete_media mem_env ''m1'' ''u1'' (mem_world (media_store [''u1/thumb_a.jpg'']))) =
     Inr (HTTP_204_NO_CONTENT, ()) \<and>
   trace (snd (delete_media mem_env ''m1'' ''u1''
                 (mem_world (media_store [''u1/thumb_a.jpg''])))) =
     [FetchAndVerify ''m1'' ''u1'', DeleteFile (PStr ''u1/a.jpg''),
      DeleteFile (PStr ''u1/thumb_a.jpg''),
      LogExc WARNING ''Thumbnail deletion failed: ''
        (Raised (OtherError ''blob store unavailable'')),
      DeleteMedia ''m1'' ''u1''] \<and>
   fetch_and_verify_media_ownership mem_env ''m1'' ''u1''
       (store (mem_world (media_store [''u1/a.jpg'']))) =
     (Inr holiday, media_store [''u1/a.jpg'']) \<and>
   blob_storage_delete_file mem_env (PStr ''u1/a.jpg'') (media_store [''u1/a.jpg'']) =
     (Inl (Raised (OtherError ''blob store unavailable'')), media_store [''u1/a.jpg'']) \<and>
   fst (delete_media mem_env ''m1'' ''u1'' (mem_world (media_store [''u1/a.jpg'']))) =
     Inl (HTTPException HTTP_500_INTERNAL_SERVER_ERROR ''Failed to delete media'')"
proof -
  let ?A = "media_store [''u1/thumb_a.jpg'']"
  let ?B = "media_store [''u1/a.jpg'']"
  let ?A1 = "?A\<lparr>blobs := [''u1/thumb_a.jpg'', ''u1/c.mp4'']\<rparr>"
  let ?err = "Raised (OtherError ''blob store unavailable'')"
  have a: "fetch_and_verify_media_ownership mem_env ''m1'' ''u1'' (store (mem_world ?A)) =
             (Inr holiday, ?A)"
    by (simp add: mem_defs)
  have b: "map_of holiday ''fileName'' = Some (PStr ''u1/a.jpg'')"
    by (simp add: holiday_def media_payload_def)
  have c: "blob_storage_delete_file mem_env (PStr ''u1/a.jpg'') ?A = (Inr (), ?A1)"
    by (simp add: mem_defs)
  have d: "extract_thumbnail_blob_identifier mem_env holiday = Inr (Some ''u1/thumb_a.jpg'')"
    by (simp add: mem_defs)
  have e: "''u1/thumb_a.jpg'' \<noteq> []" by simp
  have f: "blob_storage_delete_file mem_env (PStr ''u1/thumb_a.jpg'') ?A1 = (Inl ?err, ?A1)"
    by (simp add: mem_defs)
  have g: "cosmos_db_delete_media mem_env ''m1'' ''u1'' ?A1 =
             (Inr (), snd (cosmos_db_delete_media mem_env ''m1'' ''u1'' ?A1))"
    by (simp add: mem_env_def mem_delete_media_def)
  have h: "fetch_and_verify_media_ownership mem_env ''m1'' ''u1'' (store (mem_world ?B)) =
             (Inr holiday, ?B)"
    by (simp add: mem_defs)
  have i: "blob_storage_delete_file mem_env (PStr ''u1/a.jpg'') ?B = (Inl ?err, ?B)"
    by (simp add: mem_defs)
  have t: "trace (mem_world ?A) = []" by (simp add: mem_world_def)
  from delete_thumbnail_failure_not_fatal
         [of mem_env "''m1''" "''u1''" "mem_world ?A" holiday ?A "PStr ''u1/a.jpg''" ?A1
             "''u1/thumb_a.jpg''" ?err ?A1
             "snd (cosmos_db_delete_media mem_env ''m1'' ''u1'' ?A1)", THEN conjunct1]
       a b c d e f g
  have r1: "delete_media mem_env ''m1'' ''u1'' (mem_world ?A) =
        (Inr (HTTP_204_NO_CONTENT, ()),
         (mem_world ?A)\<lparr>store := snd (cosmos_db_delete_media mem_env ''m1'' ''u1'' ?A1),
           trace := trace (mem_world ?A) @
             [FetchAndVerify ''m1'' ''u1'', DeleteFile (PStr ''u1/a.jpg''),
              DeleteFile (PStr ''u1/thumb_a.jpg''),
              LogExc WARNING ''Thumbnail deletion failed: '' ?err,
              DeleteMedia ''m1'' ''u1'']\<rparr>)"
    by blast
  from delete_thumbnail_failure_not_fatal
         [where env = mem_env and media_id = "''m1''" and user_id = "''u1''"
            and w = "mem_world ?B" and r = holiday and ?s1.0 = ?B and fn = "PStr ''u1/a.jpg''"
            and e' = ?err and s2' = ?B, THEN conjunct2]
       h b i
  have r2: "fst (delete_media mem_env ''m1'' ''u1'' (mem_world ?B)) =
              Inl (HTTPException HTTP_500_INTERNAL_SERVER_ERROR ''Failed to delete media'')"
    by simp
  from a b d h i r1 r2 t show ?thesis by simp
qed

text \<open>
  C7. When the helper names no thumbnail blob for the record (\<^verbatim>\<open>None\<close> or the empty
  name, which \<^verbatim>\<open>if preview_blob_id:\<close> skips alike), the handler deletes the primary blob,
  then calls \<^verbatim>\<open>cosmos_db.delete_media\<close>, and returns status 204. The world it leaves
  holds the store as that last call left it (\<open>s3\<close>), and the \<open>DeleteFile\<close> events added
  to the trace are the single deletion of the primary blob.
\<close>

theorem delete_without_thumbnail_single_blob_delete:
  assumes fetch: "fetch_and_verify_media_ownership env media_id user_id (store w) = (Inr r, s1)"
      and name: "map_of r ''fileName'' = Some fn"
      and blob: "blob_storage_delete_file env fn s1 = (Inr (), s2)"
      and none: "extract_thumbnail_blob_identifier env r = Inr preview"
      and falsy: "\<not> truthy_str preview"
      and db: "cosmos_db_delete_media env media_id user_id s2 = (Inr (), s3)"
  shows "delete_media env media_id user_id w =
           (Inr (HTTP_204_NO_CONTENT, ()),
            w\<lparr>store := s3,
              trace := trace w @
                [FetchAndVerify media_id user_id, DeleteFile fn,
                 DeleteMedia media_id user_id]\<rparr>) \<and>
         fst (delete_media env media_id user_id w) = Inr (HTTP_204_NO_CONTENT, ()) \<and>
         store (snd (delete_media env media_id user_id w)) = s3 \<and>
         trace (snd (delete_media env media_id user_id w)) = trace w @
           [FetchAndVerify media_id user_id, DeleteFile fn, DeleteMedia media_id user_id] \<and>
         filter (\<lambda>ev. case ev of DeleteFile b \<Rightarrow> True | _ \<Rightarrow> False)
           (drop (length (trace w)) (trace (snd (delete_media env media_id user_id w)))) =
           [DeleteFile fn]"
  using delete_no_thumbnail [OF fetch name blob none falsy db] by simp

theorem delete_without_thumbnail_single_blob_delete_witness:
  "fetch_and_verify_media_ownership mem_env ''m2'' ''u1'' (store (mem_world (media_store []))) =
     (Inr plain, media_store []) \<and>
   map_of plain ''fileName'' = Some (PStr ''u1/c.mp4'') \<and>
   map_of plain ''thumbnailUrl'' = Some PNone \<and>
   extract_thumbnail_blob_identifier mem_env plain = Inr None \<and>
   media (media_store []) = [holiday, plain] \<and>
   fst (delete_media mem_env ''m2'' ''u1'' (mem_world (media_store []))) =
     Inr (HTTP_204_NO_CONTENT, ()) \<and>
   media (store (snd (delete_media mem_env ''m2'' ''u1'' (mem_world (media_store []))))) =
     [holiday] \<and>
   blobs (store (snd (delete_media mem_env ''m2'' ''u1'' (mem_world (media_store []))))) =
     [''u1/a.jpg'', ''u1/thumb_a.jpg''] \<and>
   trace (snd (delete_media mem_env ''m2'' ''u1'' (mem_world (media_store [])))) =
     [FetchAndVerify ''m2'' ''u1'', DeleteFile (PStr ''u1/c.mp4''), DeleteMedia ''m2'' ''u1'']"
proof -
  let ?S = "media_store []"
  let ?S1 = "?S\<lparr>blobs := [''u1/a.jpg'', ''u1/thumb_a.jpg'']\<rparr>"
  let ?S2 = "?S1\<lparr>media := [holiday]\<rparr>"
  have a: "fetch_and_verify_media_ownership mem_env ''m2'' ''u1'' (store (mem_world ?S)) =
             (Inr plain, ?S)"
    by (simp add: mem_defs)
  have b: "map_of plain ''fileName'' = Some (PStr ''u1/c.mp4'')"
    by (simp add: plain_def media_payload_def)
  have c: "blob_storage_delete_file mem_env (PStr ''u1/c.mp4'') ?S = (Inr (), ?S1)"
    by (simp add: mem_defs)
  have d: "extract_thumbnail_blob_identifier mem_env plain = Inr None"
    by (simp add: mem_defs)
  have e: "\<not> truthy_str None" by simp
  have o: "\<not> owned_by ''m2'' ''u1'' holiday" "owned_by ''m2'' ''u1'' plain"
    by (simp_all add: owned_by_def holiday_def plain_def media_payload_def)
  have m: "media ?S1 = [holiday, plain]" by (simp add: media_store_def)
  have f: "cosmos_db_delete_media mem_env ''m2'' ''u1'' ?S1 = (Inr (), ?S2)"
    by (simp add: mem_env_def mem_delete_media_def m o)
  have g: "map_of plain ''thumbnailUrl'' = Some PNone"
    by (simp add: plain_def media_payload_def)
  have t: "trace (mem_world ?S) = []" by (simp add: mem_world_def)
  have k: "media ?S2 = [holiday]" "blobs ?S2 = [''u1/a.jpg'', ''u1/thumb_a.jpg'']"
          "media ?S = [holiday, plain]"
    by (simp_all add: media_store_def)
  from delete_without_thumbnail_single_blob_delete [OF a b c d e f] a b d g t k
  show ?thesis by simp
qed

end
